theory Spec2Isabelle
  imports Complex_Main "HOL-Library.Sublist"
begin

section \<open>The Number type of the host language\<close>

text \<open>
  The program computes on the Number values of its host language: IEEE-754 binary64
  values, that is NaN, the two infinities and the finite values. A finite value is
  modelled by the real number it denotes; every arithmetic operation computes the exact
  real result and rounds it to the nearest binary64 value, ties to even (\<open>rnd\<close>).
  The two zeros are not told apart: they compare equal, both are falsy, and the program
  divides only by values it has checked to be greater than zero.
\<close>

datatype jsnum = NaN | PInf | NInf | Fin real

definition round_even :: "real \<Rightarrow> int" where
  "round_even x =
     (let n = \<lfloor>x\<rfloor>; d = x - of_int n
      in if d < 1 / 2 then n else if 1 / 2 < d then n + 1 else if even n then n else n + 1)"

definition binade :: "real \<Rightarrow> int" where
  \<comment> \<open>the exponent of the binade of \<open>x\<close>; the subnormal range shares the exponent -1022\<close>
  "binade x = max (- 1022) \<lfloor>log 2 \<bar>x\<bar>\<rfloor>"

definition ulp :: "real \<Rightarrow> real" where
  \<comment> \<open>the spacing of binary64 values (53 significant bits) in the binade of \<open>x\<close>\<close>
  "ulp x = 2 powi (binade x - 52)"

definition overflow_bound :: real where
  "overflow_bound = 2 ^ 1024"

definition rnd :: "real \<Rightarrow> jsnum" where
  \<comment> \<open>round to nearest, ties to even; overflow gives an infinity\<close>
  "rnd x =
     (if x = 0 then Fin 0
      else let y = of_int (round_even (x / ulp x)) * ulp x
           in if overflow_bound \<le> y then PInf
              else if y \<le> - overflow_bound then NInf
              else Fin y)"

definition is_inf :: "jsnum \<Rightarrow> bool" where
  "is_inf a \<longleftrightarrow> a = PInf \<or> a = NInf"

fun sign_of :: "jsnum \<Rightarrow> real" where
  "sign_of NaN = 0"
| "sign_of PInf = 1"
| "sign_of NInf = - 1"
| "sign_of (Fin a) = sgn a"

definition inf_of_sign :: "real \<Rightarrow> jsnum" where
  "inf_of_sign s = (if 0 < s then PInf else NInf)"

fun js_neg :: "jsnum \<Rightarrow> jsnum" where
  "js_neg NaN = NaN"
| "js_neg PInf = NInf"
| "js_neg NInf = PInf"
| "js_neg (Fin a) = Fin (- a)"

fun js_add :: "jsnum \<Rightarrow> jsnum \<Rightarrow> jsnum" where
  "js_add (Fin a) (Fin b) = rnd (a + b)"
| "js_add NaN _ = NaN"
| "js_add _ NaN = NaN"
| "js_add PInf NInf = NaN"
| "js_add NInf PInf = NaN"
| "js_add PInf _ = PInf"
| "js_add NInf _ = NInf"
| "js_add _ PInf = PInf"
| "js_add _ NInf = NInf"

definition js_sub :: "jsnum \<Rightarrow> jsnum \<Rightarrow> jsnum" where
  "js_sub a b = js_add a (js_neg b)"

definition js_mul :: "jsnum \<Rightarrow> jsnum \<Rightarrow> jsnum" where
  "js_mul a b =
     (case (a, b) of
        (Fin x, Fin y) \<Rightarrow> rnd (x * y)
      | _ \<Rightarrow> if a = NaN \<or> b = NaN \<or> a = Fin 0 \<or> b = Fin 0 then NaN
             else inf_of_sign (sign_of a * sign_of b))"

definition js_div :: "jsnum \<Rightarrow> jsnum \<Rightarrow> jsnum" where
  \<comment> \<open>a zero divisor is taken as +0\<close>
  "js_div a b =
     (case (a, b) of
        (Fin x, Fin y) \<Rightarrow>
          if y = 0 then (if x = 0 then NaN else inf_of_sign x) else rnd (x / y)
      | _ \<Rightarrow> if a = NaN \<or> b = NaN \<or> (is_inf a \<and> is_inf b) then NaN
             else if is_inf b then Fin 0
             else if b = Fin 0 then a
             else inf_of_sign (sign_of a * sign_of b))"

fun js_lt :: "jsnum \<Rightarrow> jsnum \<Rightarrow> bool" where
  "js_lt NaN _ = False"
| "js_lt _ NaN = False"
| "js_lt (Fin a) (Fin b) = (a < b)"
| "js_lt _ NInf = False"
| "js_lt PInf _ = False"
| "js_lt NInf _ = True"
| "js_lt _ PInf = True"

fun js_le :: "jsnum \<Rightarrow> jsnum \<Rightarrow> bool" where
  "js_le NaN _ = False"
| "js_le _ NaN = False"
| "js_le (Fin a) (Fin b) = (a \<le> b)"
| "js_le NInf _ = True"
| "js_le _ PInf = True"
| "js_le _ NInf = False"
| "js_le PInf _ = False"

definition js_gt :: "jsnum \<Rightarrow> jsnum \<Rightarrow> bool" where
  "js_gt a b = js_lt b a"

definition js_ge :: "jsnum \<Rightarrow> jsnum \<Rightarrow> bool" where
  "js_ge a b = js_le b a"

definition Math_min :: "jsnum \<Rightarrow> jsnum \<Rightarrow> jsnum" where
  "Math_min a b = (if a = NaN \<or> b = NaN then NaN else if js_le a b then a else b)"

definition Math_max :: "jsnum \<Rightarrow> jsnum \<Rightarrow> jsnum" where
  "Math_max a b = (if a = NaN \<or> b = NaN then NaN else if js_le a b then b else a)"

definition Number_isFinite :: "jsnum \<Rightarrow> bool" where
  "Number_isFinite a = (case a of Fin _ \<Rightarrow> True | _ \<Rightarrow> False)"

definition js_or :: "jsnum \<Rightarrow> jsnum \<Rightarrow> jsnum" where
  \<comment> \<open>\<open>a || d\<close> on Numbers: NaN and zero are falsy\<close>
  "js_or a d = (if a = NaN \<or> a = Fin 0 then d else a)"

text \<open>
  The language fixes \<open>Math.pow\<close> in its special cases and leaves every other power to
  the implementation, as an approximation. The model takes that approximation, a function
  of a finite base other than zero and a finite exponent other than zero, as the
  parameter \<open>host_pow\<close>. The engines compute the powers 1 and -1 exactly, as the base and
  as the rounded quotient \<open>1 / base\<close>, and so does the model.
\<close>

fun Math_pow :: "(real \<Rightarrow> real \<Rightarrow> jsnum) \<Rightarrow> jsnum \<Rightarrow> jsnum \<Rightarrow> jsnum" where
  "Math_pow host_pow _ NaN = NaN"
| "Math_pow host_pow b (Fin e) =
     (if e = 0 then Fin 1
      else case b of
        NaN \<Rightarrow> NaN
      | PInf \<Rightarrow> if 0 < e then PInf else Fin 0
      | NInf \<Rightarrow>
          if 0 < e then (if e = of_int \<lfloor>e\<rfloor> \<and> odd \<lfloor>e\<rfloor> then NInf else PInf) else Fin 0
      | Fin a \<Rightarrow>
          if a = 0 then (if 0 < e then Fin 0 else PInf)
          else if a < 0 \<and> e \<noteq> of_int \<lfloor>e\<rfloor> then NaN
          else if e = 1 then Fin a
          else if e = - 1 then rnd (1 / a)
          else host_pow a e)"
| "Math_pow host_pow b PInf =
     (case b of
        NaN \<Rightarrow> NaN
      | Fin a \<Rightarrow> if 1 < \<bar>a\<bar> then PInf else if \<bar>a\<bar> = 1 then NaN else Fin 0
      | _ \<Rightarrow> PInf)"
| "Math_pow host_pow b NInf =
     (case b of
        NaN \<Rightarrow> NaN
      | Fin a \<Rightarrow> if 1 < \<bar>a\<bar> then Fin 0 else if \<bar>a\<bar> = 1 then NaN else PInf
      | _ \<Rightarrow> Fin 0)"

text \<open>
  An approximation \<open>q\<close> of a real \<open>t\<close> is faithful when it is one of the two binary64
  values next to \<open>t\<close>, that is, when its error is below one unit in the last place.
\<close>

definition grid_value :: "real \<Rightarrow> int \<Rightarrow> jsnum" where
  \<comment> \<open>the binary64 value at the multiple \<open>k\<close> of the spacing around \<open>t\<close>\<close>
  "grid_value t k =
     (let y = of_int k * ulp t
      in if overflow_bound \<le> y then PInf else if y \<le> - overflow_bound then NInf else Fin y)"

definition faithful :: "real \<Rightarrow> jsnum \<Rightarrow> bool" where
  "faithful t q \<longleftrightarrow>
     (if t = 0 then q = Fin 0
      else q = grid_value t \<lfloor>t / ulp t\<rfloor> \<or> q = grid_value t \<lceil>t / ulp t\<rceil>)"

section \<open>Utility functions\<close>

definition clamp :: "jsnum \<Rightarrow> jsnum \<Rightarrow> jsnum \<Rightarrow> jsnum" where
  "clamp x a b = Math_max a (Math_min b x)"

definition interpret_score :: "jsnum \<Rightarrow> string" where
  \<comment> \<open>the source's \<open>interpret\<close>\<close>
  "interpret_score s =
     (if js_gt s (rnd (40 / 100)) then ''Compra forte''
      else if js_gt s (rnd (15 / 100)) then ''Considerar''
      else if js_ge s (js_neg (rnd (15 / 100))) then ''Neutro''
      else ''Evitar'')"

section \<open>Form state, results and history items\<close>

record FormState =
  pm :: string
  pa :: string
  fee :: string
  float :: string
  wp :: string
  wf :: string
  alpha :: string
  cap :: string
  r :: string
  liq :: string
  name :: string

record CalculateResult =
  Pm :: jsnum
  PaAdj :: jsnum
  D :: jsnum
  Dc :: jsnum
  Q :: jsnum
  S :: jsnum
  Sfinal :: jsnum

record HistoryItem = CalculateResult +
  item_id :: string
  item_name :: string
  floatValue :: string

definition initialFormState :: FormState where
  "initialFormState =
     \<lparr>pm = ''500'', pa = ''400'', fee = ''0'', float = ''0.12'', wp = ''0.7'', wf = ''0.3'',
      alpha = ''1'', cap = ''1'', r = ''1'', liq = ''1'', name = ''''\<rparr>"

section \<open>The calculation\<close>

text \<open>
  Each failed validation raises an alert and returns null; the model returns which of the
  three alerts was raised. \<open>alert_text\<close> is the message of each (in UTF-8).
\<close>

datatype ValidationFailure = InvalidFloat | InvalidAverageCost | InvalidWeights

definition alert_text :: "ValidationFailure \<Rightarrow> string" where
  "alert_text e =
     (case e of
        InvalidFloat \<Rightarrow> ''Float deve estar entre 0.00 e 1.00''
      | InvalidAverageCost \<Rightarrow>
          ''Pre'' @ [CHR 0xC3, CHR 0xA7] @ ''o m'' @ [CHR 0xC3, CHR 0xA9]
            @ ''dio deve ser maior que 0''
      | InvalidWeights \<Rightarrow> ''Soma dos pesos deve ser maior que 0'')"

text \<open>
  \<open>calculate\<close> reads the form state and parses its fields with the host's
  \<open>parseFloat\<close>, which is a parameter of the model, as is the host's approximation of
  the powers.
\<close>

definition calculate ::
  "(string \<Rightarrow> jsnum) \<Rightarrow> (real \<Rightarrow> real \<Rightarrow> jsnum) \<Rightarrow> FormState \<Rightarrow>
    ValidationFailure + CalculateResult" where
  "calculate parseFloat host_pow fs =
     (let Pm' = js_or (parseFloat (pm fs)) (Fin 0);
          Pa' = js_or (parseFloat (pa fs)) (Fin 0);
          fee' = js_or (parseFloat (fee fs)) (Fin 0);
          f = parseFloat (float fs);
          wp' = js_or (parseFloat (wp fs)) (Fin 0);
          wf' = js_or (parseFloat (wf fs)) (Fin 0);
          alpha' = js_or (parseFloat (alpha fs)) (Fin 1);
          cap' = js_or (parseFloat (cap fs)) (Fin 1);
          r' = js_or (parseFloat (r fs)) (Fin 1);
          L = parseFloat (liq fs)
      in if \<not> (js_ge f (Fin 0) \<and> js_le f (Fin 1)) then Inl InvalidFloat
         else if js_le Pm' (Fin 0) then Inl InvalidAverageCost
         else if js_le (js_add wp' wf') (Fin 0) then Inl InvalidWeights
         else
           let PaAdj' = js_add Pa' fee';
               D' = js_div (js_sub Pm' PaAdj') Pm';
               Dc' = clamp D' (js_neg cap') cap';
               Q' = Math_pow host_pow (js_sub (Fin 1) f) alpha';
               S' = js_div (js_add (js_mul wp' Dc') (js_mul wf' Q')) (js_add wp' wf');
               Liqu = (if Number_isFinite L then clamp L (Fin 0) (Fin 1) else Fin 1);
               Sfinal' = js_mul (js_mul S' r') Liqu
           in Inr \<lparr>Pm = Pm', PaAdj = PaAdj', D = D', Dc = Dc', Q = Q', S = S', Sfinal = Sfinal'\<rparr>)"

section \<open>The application state and its handlers\<close>

text \<open>
  The component holds three pieces of state: the form, the displayed result and the
  history. Each handler is a function from the state before the event to the state after.
\<close>

record AppState =
  formState :: FormState
  result :: "CalculateResult option"
  history :: "HistoryItem list"

definition initialAppState :: AppState where
  "initialAppState = \<lparr>formState = initialFormState, result = None, history = []\<rparr>"

definition set_field :: "string \<Rightarrow> string \<Rightarrow> FormState \<Rightarrow> FormState" where
  \<comment> \<open>\<open>{ ...prev, [name]: value }\<close>; a key that is no field of the form is read by nothing\<close>
  "set_field k v fs =
     (if k = ''pm'' then fs\<lparr>pm := v\<rparr>
      else if k = ''pa'' then fs\<lparr>pa := v\<rparr>
      else if k = ''fee'' then fs\<lparr>fee := v\<rparr>
      else if k = ''float'' then fs\<lparr>float := v\<rparr>
      else if k = ''wp'' then fs\<lparr>wp := v\<rparr>
      else if k = ''wf'' then fs\<lparr>wf := v\<rparr>
      else if k = ''alpha'' then fs\<lparr>alpha := v\<rparr>
      else if k = ''cap'' then fs\<lparr>cap := v\<rparr>
      else if k = ''r'' then fs\<lparr>r := v\<rparr>
      else if k = ''liq'' then fs\<lparr>liq := v\<rparr>
      else if k = ''name'' then fs\<lparr>name := v\<rparr>
      else fs)"

definition handleInputChange :: "string \<Rightarrow> string \<Rightarrow> AppState \<Rightarrow> AppState" where
  "handleInputChange k v st = st\<lparr>formState := set_field k v (formState st)\<rparr>"

definition handleCalculate ::
  "(string \<Rightarrow> jsnum) \<Rightarrow> (real \<Rightarrow> real \<Rightarrow> jsnum) \<Rightarrow> AppState \<Rightarrow> AppState" where
  "handleCalculate parseFloat host_pow st =
     (case calculate parseFloat host_pow (formState st) of
        Inl _ \<Rightarrow> st
      | Inr res \<Rightarrow> st\<lparr>result := Some res\<rparr>)"

definition em_dash :: string where
  \<comment> \<open>U+2014 in UTF-8\<close>
  "em_dash = [CHR 0xE2, CHR 0x80, CHR 0x94]"

definition newItem :: "CalculateResult \<Rightarrow> string \<Rightarrow> FormState \<Rightarrow> HistoryItem" where
  \<comment> \<open>\<open>item_id\<close> and \<open>item_name\<close> are the source's fields \<open>id\<close> and \<open>name\<close>\<close>
  "newItem res new_id fs =
     \<lparr>Pm = Pm res, PaAdj = PaAdj res, D = D res, Dc = Dc res, Q = Q res, S = S res,
      Sfinal = Sfinal res,
      item_id = new_id,
      item_name = (if name fs = [] then em_dash else name fs),
      floatValue = float fs\<rparr>"

text \<open>
  The identifier of a new item is built from the clock and the random number generator;
  the model takes the resulting string as an argument.
\<close>

definition handleAddHistory ::
  "(string \<Rightarrow> jsnum) \<Rightarrow> (real \<Rightarrow> real \<Rightarrow> jsnum) \<Rightarrow> string \<Rightarrow> AppState \<Rightarrow> AppState" where
  "handleAddHistory parseFloat host_pow new_id st =
     (case calculate parseFloat host_pow (formState st) of
        Inl _ \<Rightarrow> st
      | Inr res \<Rightarrow>
          st\<lparr>history := newItem res new_id (formState st) # history st, result := Some res\<rparr>)"

definition handleReset :: "AppState \<Rightarrow> AppState" where
  "handleReset st = \<lparr>formState = initialFormState, result = None, history = []\<rparr>"

text \<open>The events of the user interface, and a run of the component over a list of them.\<close>

datatype Action = InputChange string string | Calculate | AddHistory string | Reset

fun perform ::
  "(string \<Rightarrow> jsnum) \<Rightarrow> (real \<Rightarrow> real \<Rightarrow> jsnum) \<Rightarrow> AppState \<Rightarrow> Action \<Rightarrow> AppState" where
  "perform parseFloat host_pow st (InputChange k v) = handleInputChange k v st"
| "perform parseFloat host_pow st Calculate = handleCalculate parseFloat host_pow st"
| "perform parseFloat host_pow st (AddHistory new_id) =
     handleAddHistory parseFloat host_pow new_id st"
| "perform parseFloat host_pow st Reset = handleReset st"

definition run ::
  "(string \<Rightarrow> jsnum) \<Rightarrow> (real \<Rightarrow> real \<Rightarrow> jsnum) \<Rightarrow> AppState \<Rightarrow> Action list \<Rightarrow> AppState"
  where
  "run parseFloat host_pow = foldl (perform parseFloat host_pow)"

section \<open>Concrete inputs\<close>

text \<open>
  The values of \<open>parseFloat\<close> on the strings used in the examples below: a decimal
  literal denotes the binary64 value nearest to it, \<open>Infinity\<close> denotes an infinity, and
  a string that starts with no number gives NaN.
\<close>

definition example_literals :: "(string \<times> jsnum) list" where
  "example_literals =
     [(''500'', Fin 500), (''400'', Fin 400), (''0'', Fin 0), (''1'', Fin 1),
      (''0.12'', rnd (12 / 100)), (''0.7'', rnd (7 / 10)), (''0.3'', rnd (3 / 10)),
      (''0.5'', rnd (5 / 10)), (''1.5'', rnd (15 / 10)), (''-1'', Fin (- 1)),
      (''2'', Fin 2), (''3'', Fin 3), (''2000'', Fin 2000),
      (''Infinity'', PInf), (''-Infinity'', NInf)]"

definition example_parse :: "string \<Rightarrow> jsnum" where
  "example_parse s = (case map_of example_literals s of Some v \<Rightarrow> v | None \<Rightarrow> NaN)"

text \<open>
  The values of the engine's \<open>Math.pow\<close> on the two generic powers of the examples:
  0.5 to the power 2000 underflows to 0, and 0.88 (the binary64 value of 1 - 0.12) to the
  power 3 is 0.6814720000000001, the binary64 value above the exact power. No example
  asks for another generic power.
\<close>

definition example_powers :: "((real \<times> real) \<times> jsnum) list" where
  "example_powers =
     [((1 / 2, 2000), Fin 0),
      ((7926335344172073 / 9007199254740992, 3), rnd (6814720000000001 / 10000000000000000))]"

definition example_pow :: "real \<Rightarrow> real \<Rightarrow> jsnum" where
  "example_pow a e = (case map_of example_powers (a, e) of Some v \<Rightarrow> v | None \<Rightarrow> NaN)"

section \<open>Comparisons\<close>

lemma js_lt_not_le: "js_lt a b \<Longrightarrow> \<not> js_le b a"
  by (cases a; cases b) auto

lemma js_or_not_NaN: "d \<noteq> NaN \<Longrightarrow> js_or a d \<noteq> NaN"
  by (simp add: js_or_def)

lemma js_le_iff_not_gt: "a \<noteq> NaN \<Longrightarrow> js_le a (Fin 0) \<longleftrightarrow> \<not> js_gt a (Fin 0)"
  by (cases a) (auto simp add: js_gt_def)

lemma rnd_not_NaN: "rnd x \<noteq> NaN"
  by (simp add: rnd_def Let_def)

section \<open>Rounding\<close>

text \<open>
  The binade of a value is fixed by the two powers of two around it; this is how
  \<open>rnd\<close> is evaluated on a given number.
\<close>

lemma binade_eq:
  assumes "2 powi e \<le> \<bar>x\<bar>" and "\<bar>x\<bar> < 2 powi (e + 1)" and "- 1022 \<le> e"
  shows "binade x = e"
proof -
  have "(0::real) < 2 powi e"
    by simp
  then have pos: "0 < \<bar>x\<bar>"
    using assms(1) by linarith
  have p1: "(2::real) powr of_int e = 2 powi e"
    by (simp add: powr_real_of_int')
  have p2: "(2::real) powr (of_int e + 1) = 2 powi (e + 1)"
    using powr_real_of_int' [of 2 "e + 1"] by simp
  have "\<lfloor>log 2 \<bar>x\<bar>\<rfloor> = e"
    using assms(1,2) pos floor_log_eq_powr_iff [of "\<bar>x\<bar>" 2 e] p1 p2 by simp
  then show ?thesis
    using assms(3) by (simp add: binade_def)
qed

lemma binade_low:
  assumes "x \<noteq> 0" and "\<bar>x\<bar> < 2 powi (- 1022)"
  shows "binade x = - 1022"
proof -
  have "\<bar>x\<bar> < 2 powr (- 1022)"
    using assms(2) powr_real_of_int' [of 2 "- 1022"] by simp
  then have "log 2 \<bar>x\<bar> < - 1022"
    using assms(1) by (simp add: log_less_iff)
  then have "\<lfloor>log 2 \<bar>x\<bar>\<rfloor> \<le> - 1022"
    by (simp add: floor_le_iff)
  then show ?thesis
    by (simp add: binade_def)
qed

lemma rnd_normal:
  assumes "2 powi e \<le> \<bar>x\<bar>" and "\<bar>x\<bar> < 2 powi (e + 1)" and "- 1022 \<le> e"
    and "round_even (x / 2 powi (e - 52)) = m"
    and "\<bar>of_int m * 2 powi (e - 52)\<bar> < overflow_bound"
  shows "rnd x = Fin (of_int m * 2 powi (e - 52))"
proof -
  have b: "binade x = e"
    using assms(1-3) by (rule binade_eq)
  have "(0::real) < 2 powi e"
    by simp
  then have "0 < \<bar>x\<bar>"
    using assms(1) by linarith
  then have nz: "x \<noteq> 0"
    by simp
  show ?thesis
    using assms(4,5) nz by (auto simp add: rnd_def ulp_def b Let_def)
qed

lemma rnd_low:
  assumes "x \<noteq> 0" and "\<bar>x\<bar> < 2 powi (- 1022)"
    and "round_even (x / 2 powi (- 1074)) = m"
    and "\<bar>of_int m * 2 powi (- 1074)\<bar> < overflow_bound"
  shows "rnd x = Fin (of_int m * 2 powi (- 1074))"
proof -
  have b: "binade x = - 1022"
    using assms(1,2) by (rule binade_low)
  show ?thesis
    using assms(1,3,4) by (auto simp add: rnd_def ulp_def b Let_def)
qed

text \<open>Rounding moves a value to a neighbouring integer multiple of the spacing.\<close>

lemma round_even_cases: "round_even x = \<lfloor>x\<rfloor> \<or> round_even x = \<lfloor>x\<rfloor> + 1"
  by (simp add: round_even_def Let_def)

lemma round_even_of_int: "round_even (of_int n) = n"
  by (simp add: round_even_def Let_def)

lemma round_even_upper: "x \<le> of_int n \<Longrightarrow> round_even x \<le> n"
proof (cases "x = of_int n")
  case True
  then show ?thesis
    by (simp add: round_even_of_int)
next
  case False
  assume "x \<le> of_int n"
  with False have "x < of_int n"
    by simp
  then have "\<lfloor>x\<rfloor> < n"
    by (simp add: floor_less_iff)
  then show ?thesis
    using round_even_cases [of x] by linarith
qed

lemma round_even_lower: "of_int n \<le> x \<Longrightarrow> n \<le> round_even x"
proof -
  assume "of_int n \<le> x"
  then have "n \<le> \<lfloor>x\<rfloor>"
    by (simp add: le_floor_iff)
  then show ?thesis
    using round_even_cases [of x] by linarith
qed

lemma ulp_pos: "0 < ulp t"
  by (simp add: ulp_def)

lemma binade_unit:
  assumes "0 < t" and "t \<le> 1"
  shows "binade t \<le> 0"
proof -
  have "log 2 \<bar>t\<bar> \<le> 0"
    using assms by simp
  then have "\<lfloor>log 2 \<bar>t\<bar>\<rfloor> \<le> 0"
    by (simp add: floor_le_iff)
  then show ?thesis
    by (simp add: binade_def)
qed

text \<open>Rounding keeps a value of the unit interval inside the unit interval.\<close>

lemma rnd_unit:
  assumes "0 \<le> t" and "t \<le> 1"
  shows "\<exists>y. rnd t = Fin y \<and> 0 \<le> y \<and> y \<le> 1"
proof (cases "t = 0")
  case True
  then show ?thesis
    by (simp add: rnd_def)
next
  case False
  with assms have pos: "0 < t"
    by simp
  define k where "k = nat (52 - binade t)"
  define m where "m = round_even (t / ulp t)"
  have e: "binade t \<le> 0"
    using pos assms(2) by (rule binade_unit)
  have u: "ulp t = 1 / 2 ^ k"
    using e by (simp add: ulp_def k_def power_int_def field_simps nat_diff_distrib')
  have "t / ulp t \<le> of_int (2 ^ k)"
    using assms(2) by (simp add: u)
  then have m_hi: "m \<le> 2 ^ k"
    unfolding m_def by (rule round_even_upper)
  have "of_int 0 \<le> t / ulp t"
    using assms(1) ulp_pos [of t] by simp
  then have m_lo: "0 \<le> m"
    unfolding m_def by (rule round_even_lower)
  have y_lo: "0 \<le> of_int m * ulp t"
    using m_lo ulp_pos [of t] by simp
  have "of_int m * ulp t \<le> 2 ^ k * ulp t"
    using m_hi ulp_pos [of t]
    by (simp add: of_int_le_iff [of m "2 ^ k", where ?'a = real, simplified])
  then have y_hi: "of_int m * ulp t \<le> 1"
    by (simp add: u)
  have big: "(1::real) < overflow_bound"
    by (simp add: overflow_bound_def)
  show ?thesis
    using False y_lo y_hi big by (simp add: rnd_def Let_def m_def [symmetric])
qed

lemma ulp_le_self:
  assumes "2 powi (- 1074) \<le> t"
  shows "ulp t \<le> t"
proof (cases "binade t = - 1022")
  case True
  then show ?thesis
    using assms by (simp add: ulp_def)
next
  case False
  have "(0::real) < 2 powi (- 1074)"
    by simp
  then have pos: "0 < t"
    using assms by linarith
  from False have b: "binade t = \<lfloor>log 2 \<bar>t\<bar>\<rfloor>"
    by (simp add: binade_def max_def split: if_splits)
  have "2 powr of_int \<lfloor>log 2 t\<rfloor> \<le> t"
    using pos floor_log_eq_powr_iff [of t 2 "\<lfloor>log 2 t\<rfloor>"] by simp
  then have "2 powi (binade t) \<le> t"
    using b pos by (simp add: powr_real_of_int')
  moreover have "(2::real) powi (binade t - 52) \<le> 2 powi (binade t)"
    by (rule power_int_increasing) simp_all
  ultimately show ?thesis
    by (simp add: ulp_def)
qed

text \<open>A value of the unit interval that is at least the least positive binary64 value
  does not round to zero.\<close>

lemma rnd_positive:
  assumes "2 powi (- 1074) \<le> t" and "t \<le> 1"
  shows "\<exists>y. rnd t = Fin y \<and> 0 < y"
proof -
  have "(0::real) < 2 powi (- 1074)"
    by simp
  then have pos: "0 < t"
    using assms(1) by linarith
  obtain y where y: "rnd t = Fin y"
    using rnd_unit [of t] pos assms(2) by auto
  have "of_int 1 \<le> t / ulp t"
    using ulp_le_self [OF assms(1)] ulp_pos [of t] by simp
  then have "1 \<le> round_even (t / ulp t)"
    by (rule round_even_lower)
  then have "0 < of_int (round_even (t / ulp t)) * ulp t"
    using ulp_pos [of t] by simp
  then show ?thesis
    using y pos by (auto simp add: rnd_def Let_def split: if_splits)
qed

section \<open>The branches of the calculation\<close>

lemma calculate_fields:
  assumes "calculate parseFloat host_pow fs = Inr res"
  shows "Pm res = js_or (parseFloat (pm fs)) (Fin 0)"
    and "PaAdj res = js_add (js_or (parseFloat (pa fs)) (Fin 0)) (js_or (parseFloat (fee fs)) (Fin 0))"
    and "D res = js_div (js_sub (Pm res) (PaAdj res)) (Pm res)"
    and "Dc res = clamp (D res) (js_neg (js_or (parseFloat (cap fs)) (Fin 1)))
           (js_or (parseFloat (cap fs)) (Fin 1))"
    and "Q res = Math_pow host_pow (js_sub (Fin 1) (parseFloat (float fs)))
           (js_or (parseFloat (alpha fs)) (Fin 1))"
    and "S res = js_div
           (js_add (js_mul (js_or (parseFloat (wp fs)) (Fin 0)) (Dc res))
             (js_mul (js_or (parseFloat (wf fs)) (Fin 0)) (Q res)))
           (js_add (js_or (parseFloat (wp fs)) (Fin 0)) (js_or (parseFloat (wf fs)) (Fin 0)))"
    and "Sfinal res = js_mul (js_mul (S res) (js_or (parseFloat (r fs)) (Fin 1)))
           (if Number_isFinite (parseFloat (liq fs)) then clamp (parseFloat (liq fs)) (Fin 0) (Fin 1)
            else Fin 1)"
  using assms by (auto simp add: calculate_def Let_def split: if_splits)

lemma calculate_valid:
  assumes "calculate parseFloat host_pow fs = Inr res"
  shows "js_ge (parseFloat (float fs)) (Fin 0)"
    and "js_le (parseFloat (float fs)) (Fin 1)"
    and "\<not> js_le (js_or (parseFloat (pm fs)) (Fin 0)) (Fin 0)"
    and "\<not> js_le (js_add (js_or (parseFloat (wp fs)) (Fin 0)) (js_or (parseFloat (wf fs)) (Fin 0)))
           (Fin 0)"
  using assms by (auto simp add: calculate_def Let_def split: if_splits)

lemma calculate_failure:
  "calculate parseFloat host_pow fs = Inl e \<longleftrightarrow>
     (if \<not> (js_ge (parseFloat (float fs)) (Fin 0) \<and> js_le (parseFloat (float fs)) (Fin 1))
      then e = InvalidFloat
      else if js_le (js_or (parseFloat (pm fs)) (Fin 0)) (Fin 0) then e = InvalidAverageCost
      else js_le (js_add (js_or (parseFloat (wp fs)) (Fin 0)) (js_or (parseFloat (wf fs)) (Fin 0)))
             (Fin 0)
           \<and> e = InvalidWeights)"
  by (auto simp add: calculate_def Let_def)

section \<open>The handlers\<close>

lemma handleAddHistory_success:
  assumes "calculate parseFloat host_pow (formState st) = Inr res"
  shows "handleAddHistory parseFloat host_pow new_id st =
    st\<lparr>history := newItem res new_id (formState st) # history st, result := Some res\<rparr>"
  using assms by (simp add: handleAddHistory_def)

lemma run_Cons: "run parseFloat host_pow st (a # acts) = run parseFloat host_pow (perform parseFloat host_pow st a) acts"
  by (simp add: run_def)

lemma run_commits:
  assumes "calculate parseFloat host_pow (formState st) = Inr res"
  shows "formState (run parseFloat host_pow st (map AddHistory ids)) = formState st \<and>
    history (run parseFloat host_pow st (map AddHistory ids)) =
      rev (map (\<lambda>i. newItem res i (formState st)) ids) @ history st"
  using assms
proof (induction ids arbitrary: st)
  case Nil
  then show ?case
    by (simp add: run_def)
next
  case (Cons i ids)
  let ?st = "handleAddHistory parseFloat host_pow i st"
  have step: "?st = st\<lparr>history := newItem res i (formState st) # history st, result := Some res\<rparr>"
    using Cons.prems by (rule handleAddHistory_success)
  then have same: "formState ?st = formState st"
    by simp
  then have "calculate parseFloat host_pow (formState ?st) = Inr res"
    using Cons.prems by simp
  from Cons.IH [OF this] show ?case
    by (simp add: run_Cons same) (simp add: step)
qed

lemma history_suffix_step:
  assumes "a \<noteq> Reset"
  shows "suffix (history st) (history (perform parseFloat host_pow st a))"
  using assms
  by (cases a)
    (auto simp add: handleInputChange_def handleCalculate_def handleAddHistory_def suffix_def
      split: sum.splits)

lemma history_suffix_run:
  assumes "Reset \<notin> set acts"
  shows "suffix (history st) (history (run parseFloat host_pow st acts))"
  using assms
proof (induction acts arbitrary: st)
  case Nil
  then show ?case
    by (simp add: run_def)
next
  case (Cons a acts)
  then have "a \<noteq> Reset"
    by auto
  then have "suffix (history st) (history (perform parseFloat host_pow st a))"
    by (rule history_suffix_step)
  moreover have "suffix (history (perform parseFloat host_pow st a))
      (history (run parseFloat host_pow (perform parseFloat host_pow st a) acts))"
    using Cons by simp
  ultimately show ?case
    by (simp add: run_Cons)
qed

section \<open>Values of the unit interval\<close>

text \<open>The binary64 values next to a value of the unit interval lie in the unit interval.\<close>

lemma grid_value_unit:
  assumes "0 < t" and "t \<le> 1" and "0 \<le> k" and "k \<le> \<lceil>t / ulp t\<rceil>"
  shows "\<exists>y. grid_value t k = Fin y \<and> 0 \<le> y \<and> y \<le> 1 \<and> (0 < k \<longrightarrow> 0 < y)"
proof -
  define n where "n = nat (52 - binade t)"
  have e: "binade t \<le> 0"
    using assms(1,2) by (rule binade_unit)
  have u: "ulp t = 1 / 2 ^ n"
    using e by (simp add: ulp_def n_def power_int_def field_simps nat_diff_distrib')
  have "t / ulp t \<le> of_int (2 ^ n)"
    using assms(2) by (simp add: u)
  then have "\<lceil>t / ulp t\<rceil> \<le> 2 ^ n"
    by (simp add: ceiling_le_iff)
  then have k_hi: "k \<le> 2 ^ n"
    using assms(4) by linarith
  have y_lo: "0 \<le> of_int k * ulp t"
    using assms(3) ulp_pos [of t] by simp
  have y_pos: "0 < of_int k * ulp t" if "0 < k"
    using that ulp_pos [of t] by simp
  have "of_int k * ulp t \<le> 2 ^ n * ulp t"
    using k_hi ulp_pos [of t]
    by (simp add: of_int_le_iff [of k "2 ^ n", where ?'a = real, simplified])
  then have y_hi: "of_int k * ulp t \<le> 1"
    by (simp add: u)
  have big: "(1::real) < overflow_bound"
    by (simp add: overflow_bound_def)
  show ?thesis
    using y_lo y_hi y_pos big by (simp add: grid_value_def Let_def)
qed

lemma faithful_unit:
  assumes "0 < t" and "t \<le> 1" and "faithful t q"
  shows "\<exists>y. q = Fin y \<and> 0 \<le> y \<and> y \<le> 1"
proof -
  have z: "0 \<le> t / ulp t"
    using assms(1) ulp_pos [of t] by simp
  then have lo: "0 \<le> \<lfloor>t / ulp t\<rfloor>"
    by simp
  have up: "0 \<le> \<lceil>t / ulp t\<rceil>"
    using z by (simp add: le_ceiling_iff)
  have order: "\<lfloor>t / ulp t\<rfloor> \<le> \<lceil>t / ulp t\<rceil>"
    by (rule floor_le_ceiling)
  from assms(1,3) consider "q = grid_value t \<lfloor>t / ulp t\<rfloor>" | "q = grid_value t \<lceil>t / ulp t\<rceil>"
    by (auto simp add: faithful_def)
  then show ?thesis
  proof cases
    case 1
    then show ?thesis
      using grid_value_unit [OF assms(1,2) lo order] by auto
  next
    case 2
    then show ?thesis
      using grid_value_unit [OF assms(1,2) up order_refl] by auto
  qed
qed

lemma faithful_positive:
  assumes "2 powi (- 1074) \<le> t" and "t \<le> 1" and "faithful t q"
  shows "\<exists>y. q = Fin y \<and> 0 < y"
proof -
  have "(0::real) < 2 powi (- 1074)"
    by simp
  then have pos: "0 < t"
    using assms(1) by linarith
  have "of_int 1 \<le> t / ulp t"
    using ulp_le_self [OF assms(1)] ulp_pos [of t] by simp
  then have lo: "1 \<le> \<lfloor>t / ulp t\<rfloor>"
    by (simp add: le_floor_iff)
  have order: "\<lfloor>t / ulp t\<rfloor> \<le> \<lceil>t / ulp t\<rceil>"
    by (rule floor_le_ceiling)
  have up: "1 \<le> \<lceil>t / ulp t\<rceil>"
    using lo order by linarith
  from pos assms(3) consider "q = grid_value t \<lfloor>t / ulp t\<rfloor>" | "q = grid_value t \<lceil>t / ulp t\<rceil>"
    by (auto simp add: faithful_def)
  then show ?thesis
  proof cases
    case 1
    have "0 \<le> \<lfloor>t / ulp t\<rfloor>" and "0 < \<lfloor>t / ulp t\<rfloor>"
      using lo by linarith+
    then show ?thesis
      using 1 grid_value_unit [OF pos assms(2) _ order] by auto
  next
    case 2
    have "0 \<le> \<lceil>t / ulp t\<rceil>" and "0 < \<lceil>t / ulp t\<rceil>"
      using up by linarith+
    then show ?thesis
      using 2 grid_value_unit [OF pos assms(2) _ order_refl] by auto
  qed
qed

text \<open>The power of a value of the unit interval to a positive exponent.\<close>

lemma Math_pow_unit:
  assumes "0 \<le> y" and "y \<le> 1" and "0 < a" and "faithful (y powr a) (host_pow y a)"
  shows "\<exists>q. Math_pow host_pow (Fin y) (Fin a) = Fin q \<and> 0 \<le> q \<and> q \<le> 1"
proof (cases "y = 0 \<or> a = 1")
  case True
  then show ?thesis
    using assms(1-3) by auto
next
  case False
  with assms(1) have pos: "0 < y"
    by simp
  have "0 < y powr a"
    using pos by simp
  moreover have "y powr a \<le> 1"
    using assms by (simp add: powr_le1)
  ultimately obtain q where "host_pow y a = Fin q" and "0 \<le> q" and "q \<le> 1"
    using faithful_unit [OF _ _ assms(4)] by blast
  then show ?thesis
    using pos assms(3) False by simp
qed

lemma Math_pow_positive:
  assumes "0 \<le> y" and "y \<le> 1" and "0 < a" and "faithful (y powr a) (host_pow y a)"
    and "2 powi (- 1074) \<le> y powr a"
  shows "\<exists>q. Math_pow host_pow (Fin y) (Fin a) = Fin q \<and> 0 < q"
proof -
  have "(0::real) < 2 powi (- 1074)"
    by simp
  then have "0 < y powr a"
    using assms(5) by linarith
  then have "y \<noteq> 0"
    by auto
  with assms(1) have pos: "0 < y"
    by simp
  show ?thesis
  proof (cases "a = 1")
    case True
    then show ?thesis
      using pos by simp
  next
    case False
    have "y powr a \<le> 1"
      using assms by (simp add: powr_le1)
    then obtain q where "host_pow y a = Fin q" and "0 < q"
      using faithful_positive [OF assms(5) _ assms(4)] by blast
    then show ?thesis
      using pos assms(3) False by simp
  qed
qed

lemma one_minus_unit:
  assumes "js_ge f (Fin 0)" and "js_le f (Fin 1)"
  shows "\<exists>y. js_sub (Fin 1) f = Fin y \<and> 0 \<le> y \<and> y \<le> 1"
proof -
  obtain x where f: "f = Fin x" and "0 \<le> x" and "x \<le> 1"
    using assms by (cases f) (auto simp add: js_ge_def)
  then have "0 \<le> 1 - x" and "1 - x \<le> 1"
    by simp_all
  then obtain y where "rnd (1 - x) = Fin y" and "0 \<le> y" and "y \<le> 1"
    using rnd_unit [of "1 - x"] by blast
  then show ?thesis
    using f by (simp add: js_sub_def)
qed

lemma one_minus_positive:
  assumes "2 powi (- 1074) \<le> 1 - x" and "0 \<le> x"
  shows "js_lt (Fin 0) (js_sub (Fin 1) (Fin x))"
proof -
  have "1 - x \<le> 1"
    using assms(2) by simp
  then obtain y where "rnd (1 - x) = Fin y" and "0 < y"
    using rnd_positive [OF assms(1)] by blast
  then show ?thesis
    by (simp add: js_sub_def)
qed

text \<open>A binary64 value below 1 is below 1 by at least the least positive binary64 value.\<close>

lemma binary64_below_one:
  assumes "rnd x = Fin x" and "0 \<le> x" and "x < 1"
  shows "2 powi (- 1074) \<le> 1 - x"
proof (cases "x = 0")
  case True
  have "(2::real) powi (- 1074) \<le> 2 powi 0"
    by (rule power_int_increasing) simp_all
  then show ?thesis
    using True by simp
next
  case False
  with assms(2) have pos: "0 < x"
    by simp
  define k where "k = round_even (x / ulp x)"
  define n where "n = nat (52 - binade x)"
  have grid: "x = of_int k * ulp x"
    using assms(1) False by (simp add: rnd_def Let_def k_def split: if_splits)
  have e: "binade x \<le> 0"
    using pos assms(3) by (intro binade_unit) simp_all
  have u: "ulp x = 1 / 2 ^ n"
    using e by (simp add: ulp_def n_def power_int_def field_simps nat_diff_distrib')
  have "of_int k = x * 2 ^ n"
    using grid by (simp add: u)
  moreover have "x * 2 ^ n < 1 * 2 ^ n"
    using assms(3) by (intro mult_strict_right_mono) simp_all
  ultimately have "of_int k < (2::real) ^ n"
    by simp
  then have "of_int k < (of_int (2 ^ n) :: real)"
    by simp
  then have "k < 2 ^ n"
    by (simp only: of_int_less_iff)
  then have "k + 1 \<le> 2 ^ n"
    by simp
  then have "of_int (k + 1) \<le> (of_int (2 ^ n) :: real)"
    by (simp only: of_int_le_iff)
  then have "(of_int k + 1) * ulp x \<le> 2 ^ n * ulp x"
    using ulp_pos [of x] by simp
  then have step: "ulp x \<le> 1 - x"
    using grid by (simp add: u field_simps)
  have "- 1022 \<le> binade x"
    by (simp add: binade_def)
  then have "(2::real) powi (- 1074) \<le> 2 powi (binade x - 52)"
    by (intro power_int_increasing) simp_all
  then show ?thesis
    using step by (simp add: ulp_def)
qed

section \<open>The examples, evaluated\<close>

text \<open>
  Each step of the calculation on the example inputs: the exact result of the operation,
  rounded. The literals are the binary64 values of the decimal constants.
\<close>

lemma literal_1: "rnd (2 / 5) = Fin (3602879701896397 / 9007199254740992)"
  by (subst rnd_normal [where e = "-2" and m = "7205759403792794"],
      simp_all add: round_even_def power_int_minus Let_def overflow_bound_def)

lemma literal_2: "rnd (3 / 20) = Fin (5404319552844595 / 36028797018963968)"
  by (subst rnd_normal [where e = "-3" and m = "5404319552844595"],
      simp_all add: round_even_def power_int_minus Let_def overflow_bound_def)

lemma literal_3:
  "rnd (6814720000000001 / 10000000000000000) =
     Fin (3069077045263427 / 4503599627370496)"
  by (subst rnd_normal [where e = "-1" and m = "6138154090526854"],
      simp_all add: round_even_def power_int_minus Let_def overflow_bound_def)

lemma literal_4: "rnd (3 / 25) = Fin (1080863910568919 / 9007199254740992)"
  by (subst rnd_normal [where e = "-4" and m = "8646911284551352"],
      simp_all add: round_even_def power_int_minus Let_def overflow_bound_def)

lemma literal_5: "rnd (7 / 10) = Fin (3152519739159347 / 4503599627370496)"
  by (subst rnd_normal [where e = "-1" and m = "6305039478318694"],
      simp_all add: round_even_def power_int_minus Let_def overflow_bound_def)

lemma literal_6: "rnd (3 / 10) = Fin (5404319552844595 / 18014398509481984)"
  by (subst rnd_normal [where e = "-2" and m = "5404319552844595"],
      simp_all add: round_even_def power_int_minus Let_def overflow_bound_def)

lemma step_add_1:
  "js_add (Fin (3152519739159347 / 4503599627370496))
     (Fin (5404319552844595 / 18014398509481984)) =
     Fin 1"
  by simp
    (subst rnd_normal [where e = "-1" and m = "9007199254740992"],
      simp_all add: round_even_def power_int_minus Let_def overflow_bound_def)

lemma step_add_2: "js_add (Fin 400) (Fin 0) = Fin 400"
  by simp
    (subst rnd_normal [where e = "8" and m = "7036874417766400"],
      simp_all add: round_even_def power_int_minus Let_def overflow_bound_def)

lemma step_sub_1: "js_sub (Fin 500) (Fin 400) = Fin 100"
  by (simp add: js_sub_def)
    (subst rnd_normal [where e = "6" and m = "7036874417766400"],
      simp_all add: round_even_def power_int_minus Let_def overflow_bound_def)

lemma step_div_1: "js_div (Fin 100) (Fin 500) = Fin (3602879701896397 / 18014398509481984)"
  by (simp add: js_div_def)
    (subst rnd_normal [where e = "-3" and m = "7205759403792794"],
      simp_all add: round_even_def power_int_minus Let_def overflow_bound_def)

lemma step_sub_2:
  "js_sub (Fin 1) (Fin (1080863910568919 / 9007199254740992)) =
     Fin (7926335344172073 / 9007199254740992)"
  by (simp add: js_sub_def)
    (subst rnd_normal [where e = "-1" and m = "7926335344172073"],
      simp_all add: round_even_def power_int_minus Let_def overflow_bound_def)

lemma step_pow_1:
  "Math_pow h (Fin (7926335344172073 / 9007199254740992)) (Fin 1) =
     Fin (7926335344172073 / 9007199254740992)"
  by simp

lemma step_mul_1:
  "js_mul (Fin (3152519739159347 / 4503599627370496))
     (Fin (3602879701896397 / 18014398509481984)) =
     Fin (5044031582654955 / 36028797018963968)"
  by (simp add: js_mul_def)
    (subst rnd_normal [where e = "-3" and m = "5044031582654955"],
      simp_all add: round_even_def power_int_minus Let_def overflow_bound_def)

lemma step_mul_2:
  "js_mul (Fin (5404319552844595 / 18014398509481984))
     (Fin (7926335344172073 / 9007199254740992)) =
     Fin (1188950301625811 / 4503599627370496)"
  by (simp add: js_mul_def)
    (subst rnd_normal [where e = "-2" and m = "4755801206503244"],
      simp_all add: round_even_def power_int_minus Let_def overflow_bound_def)

lemma step_add_3:
  "js_add (Fin (5044031582654955 / 36028797018963968))
     (Fin (1188950301625811 / 4503599627370496)) =
     Fin (3638908498915361 / 9007199254740992)"
  by simp
    (subst rnd_normal [where e = "-2" and m = "7277816997830722"],
      simp_all add: round_even_def power_int_minus Let_def overflow_bound_def)

lemma step_div_2:
  "js_div (Fin (3638908498915361 / 9007199254740992)) (Fin 1) =
     Fin (3638908498915361 / 9007199254740992)"
  by (simp add: js_div_def)
    (subst rnd_normal [where e = "-2" and m = "7277816997830722"],
      simp_all add: round_even_def power_int_minus Let_def overflow_bound_def)

lemma step_mul_3:
  "js_mul (Fin (3638908498915361 / 9007199254740992)) (Fin 1) =
     Fin (3638908498915361 / 9007199254740992)"
  by (simp add: js_mul_def)
    (subst rnd_normal [where e = "-2" and m = "7277816997830722"],
      simp_all add: round_even_def power_int_minus Let_def overflow_bound_def)

lemma literal_7: "rnd (1 / 5) = Fin (3602879701896397 / 18014398509481984)"
  by (subst rnd_normal [where e = "-3" and m = "7205759403792794"],
      simp_all add: round_even_def power_int_minus Let_def overflow_bound_def)

lemma literal_8: "rnd (22 / 25) = Fin (7926335344172073 / 9007199254740992)"
  by (subst rnd_normal [where e = "-1" and m = "7926335344172073"],
      simp_all add: round_even_def power_int_minus Let_def overflow_bound_def)

lemma literal_9: "rnd (101 / 250) = Fin (3638908498915361 / 9007199254740992)"
  by (subst rnd_normal [where e = "-2" and m = "7277816997830722"],
      simp_all add: round_even_def power_int_minus Let_def overflow_bound_def)

lemma literal_10: "rnd (3 / 2) = Fin (3 / 2)"
  by (subst rnd_normal [where e = "0" and m = "6755399441055744"],
      simp_all add: round_even_def power_int_minus Let_def overflow_bound_def)

lemma step_add_4: "js_add (Fin 0) (Fin 0) = Fin 0"
  by (simp add:  rnd_def)

lemma literal_11: "rnd (1 / 2) = Fin (1 / 2)"
  by (subst rnd_normal [where e = "-1" and m = "4503599627370496"],
      simp_all add: round_even_def power_int_minus Let_def overflow_bound_def)

lemma step_sub_3: "js_sub (Fin 1) (Fin (1 / 2)) = Fin (1 / 2)"
  by (simp add: js_sub_def)
    (subst rnd_normal [where e = "-1" and m = "4503599627370496"],
      simp_all add: round_even_def power_int_minus Let_def overflow_bound_def)

lemma step_pow_2: "Math_pow h (Fin (1 / 2)) (Fin (- 1)) = Fin 2"
  by simp
    (subst rnd_normal [where e = "1" and m = "4503599627370496"],
      simp_all add: round_even_def power_int_minus Let_def overflow_bound_def)

lemma step_mul_4:
  "js_mul (Fin (5404319552844595 / 18014398509481984)) (Fin 2) =
     Fin (5404319552844595 / 9007199254740992)"
  by (simp add: js_mul_def)
    (subst rnd_normal [where e = "-1" and m = "5404319552844595"],
      simp_all add: round_even_def power_int_minus Let_def overflow_bound_def)

lemma step_add_5:
  "js_add (Fin (5044031582654955 / 36028797018963968))
     (Fin (5404319552844595 / 9007199254740992)) =
     Fin (3332663724254167 / 4503599627370496)"
  by simp
    (subst rnd_normal [where e = "-1" and m = "6665327448508334"],
      simp_all add: round_even_def power_int_minus Let_def overflow_bound_def)

lemma step_div_3:
  "js_div (Fin (3332663724254167 / 4503599627370496)) (Fin 1) =
     Fin (3332663724254167 / 4503599627370496)"
  by (simp add: js_div_def)
    (subst rnd_normal [where e = "-1" and m = "6665327448508334"],
      simp_all add: round_even_def power_int_minus Let_def overflow_bound_def)

lemma step_mul_5:
  "js_mul (Fin (3332663724254167 / 4503599627370496)) (Fin 1) =
     Fin (3332663724254167 / 4503599627370496)"
  by (simp add: js_mul_def)
    (subst rnd_normal [where e = "-1" and m = "6665327448508334"],
      simp_all add: round_even_def power_int_minus Let_def overflow_bound_def)

lemma literal_12: "rnd (37 / 50) = Fin (3332663724254167 / 4503599627370496)"
  by (subst rnd_normal [where e = "-1" and m = "6665327448508334"],
      simp_all add: round_even_def power_int_minus Let_def overflow_bound_def)

lemma step_pow_3: "Math_pow example_pow (Fin (1 / 2)) (Fin 2000) = Fin 0"
  by (simp add: example_pow_def example_powers_def literal_1 literal_10 literal_11 literal_12 literal_2 literal_3 literal_4 literal_5 literal_6 literal_7 literal_8 literal_9)

lemma step_mul_6: "js_mul (Fin (5404319552844595 / 18014398509481984)) (Fin 0) = Fin 0"
  by (simp add: js_mul_def rnd_def)

lemma step_add_6:
  "js_add (Fin (5044031582654955 / 36028797018963968)) (Fin 0) =
     Fin (5044031582654955 / 36028797018963968)"
  by simp
    (subst rnd_normal [where e = "-3" and m = "5044031582654955"],
      simp_all add: round_even_def power_int_minus Let_def overflow_bound_def)

lemma step_div_4:
  "js_div (Fin (5044031582654955 / 36028797018963968)) (Fin 1) =
     Fin (5044031582654955 / 36028797018963968)"
  by (simp add: js_div_def)
    (subst rnd_normal [where e = "-3" and m = "5044031582654955"],
      simp_all add: round_even_def power_int_minus Let_def overflow_bound_def)

lemma step_mul_7:
  "js_mul (Fin (5044031582654955 / 36028797018963968)) (Fin 1) =
     Fin (5044031582654955 / 36028797018963968)"
  by (simp add: js_mul_def)
    (subst rnd_normal [where e = "-3" and m = "5044031582654955"],
      simp_all add: round_even_def power_int_minus Let_def overflow_bound_def)

lemma literal_13:
  "rnd (13999999999999999 / 100000000000000000) =
     Fin (5044031582654955 / 36028797018963968)"
  by (subst rnd_normal [where e = "-3" and m = "5044031582654955"],
      simp_all add: round_even_def power_int_minus Let_def overflow_bound_def)

lemma step_sub_4: "js_sub (Fin 1) (Fin 1) = Fin 0"
  by (simp add: js_sub_def rnd_def)

lemma step_pow_4: "Math_pow h (Fin 0) (Fin 1) = Fin 0"
  by simp

lemma step_sub_5: "js_sub (Fin 1) (Fin 0) = Fin 1"
  by (simp add: js_sub_def)
    (subst rnd_normal [where e = "0" and m = "4503599627370496"],
      simp_all add: round_even_def power_int_minus Let_def overflow_bound_def)

lemma step_pow_5: "Math_pow h (Fin 1) PInf = NaN"
  by simp

lemma step_mul_8: "js_mul (Fin (5404319552844595 / 18014398509481984)) (NaN) = NaN"
  by (simp add: js_sub_def js_mul_def js_div_def is_inf_def inf_of_sign_def)

lemma step_div_5: "js_div (NaN) (Fin 1) = NaN"
  by (simp add: js_sub_def js_mul_def js_div_def is_inf_def inf_of_sign_def)

lemma step_mul_9: "js_mul (NaN) (Fin 1) = NaN"
  by (simp add: js_sub_def js_mul_def js_div_def is_inf_def inf_of_sign_def)

lemma step_pow_6:
  "Math_pow example_pow (Fin (7926335344172073 / 9007199254740992)) (Fin 3) =
     Fin (3069077045263427 / 4503599627370496)"
  by (simp add: example_pow_def example_powers_def literal_1 literal_10 literal_11 literal_12 literal_13 literal_2 literal_3 literal_4 literal_5 literal_6 literal_7 literal_8 literal_9)

lemma step_mul_10:
  "js_mul (Fin (5404319552844595 / 18014398509481984))
     (Fin (3069077045263427 / 4503599627370496)) =
     Fin (7365784908632225 / 36028797018963968)"
  by (simp add: js_mul_def)
    (subst rnd_normal [where e = "-3" and m = "7365784908632225"],
      simp_all add: round_even_def power_int_minus Let_def overflow_bound_def)

lemma step_add_7:
  "js_add (Fin (5044031582654955 / 36028797018963968))
     (Fin (7365784908632225 / 36028797018963968)) =
     Fin (3102454122821795 / 9007199254740992)"
  by simp
    (subst rnd_normal [where e = "-2" and m = "6204908245643590"],
      simp_all add: round_even_def power_int_minus Let_def overflow_bound_def)

lemma step_div_6:
  "js_div (Fin (3102454122821795 / 9007199254740992)) (Fin 1) =
     Fin (3102454122821795 / 9007199254740992)"
  by (simp add: js_div_def)
    (subst rnd_normal [where e = "-2" and m = "6204908245643590"],
      simp_all add: round_even_def power_int_minus Let_def overflow_bound_def)

lemma step_mul_11:
  "js_mul (Fin (3102454122821795 / 9007199254740992)) (Fin 1) =
     Fin (3102454122821795 / 9007199254740992)"
  by (simp add: js_mul_def)
    (subst rnd_normal [where e = "-2" and m = "6204908245643590"],
      simp_all add: round_even_def power_int_minus Let_def overflow_bound_def)

lemma literal_14: "rnd (53819 / 156250) = Fin (3102454122821795 / 9007199254740992)"
  by (subst rnd_normal [where e = "-2" and m = "6204908245643590"],
      simp_all add: round_even_def power_int_minus Let_def overflow_bound_def)

lemma step_mul_12: "js_mul (PInf) (Fin (3602879701896397 / 18014398509481984)) = PInf"
  by (simp add: js_sub_def js_mul_def js_div_def is_inf_def inf_of_sign_def)

lemma step_mul_13: "js_mul (NInf) (Fin (7926335344172073 / 9007199254740992)) = NInf"
  by (simp add: js_sub_def js_mul_def js_div_def is_inf_def inf_of_sign_def)

lemma step_div_7: "js_div (NaN) (NaN) = NaN"
  by (simp add: js_sub_def js_mul_def js_div_def is_inf_def inf_of_sign_def)

lemma step_mul_14:
  "js_mul (Fin (3638908498915361 / 9007199254740992)) (Fin (1 / 2)) =
     Fin (3638908498915361 / 18014398509481984)"
  by (simp add: js_mul_def)
    (subst rnd_normal [where e = "-3" and m = "7277816997830722"],
      simp_all add: round_even_def power_int_minus Let_def overflow_bound_def)

lemma literal_15: "rnd (101 / 500) = Fin (3638908498915361 / 18014398509481984)"
  by (subst rnd_normal [where e = "-3" and m = "7277816997830722"],
      simp_all add: round_even_def power_int_minus Let_def overflow_bound_def)

lemma step_mul_15: "js_mul (Fin (3638908498915361 / 9007199254740992)) (Fin 0) = Fin 0"
  by (simp add: js_mul_def rnd_def)

lemma step_mul_16:
  "js_mul (Fin (3152519739159347 / 4503599627370496)) (Fin 1) =
     Fin (3152519739159347 / 4503599627370496)"
  by (simp add: js_mul_def)
    (subst rnd_normal [where e = "-1" and m = "6305039478318694"],
      simp_all add: round_even_def power_int_minus Let_def overflow_bound_def)

lemma step_add_8:
  "js_add (Fin (3152519739159347 / 4503599627370496))
     (Fin (5404319552844595 / 9007199254740992)) =
     Fin (1463669878895411 / 1125899906842624)"
  by simp
    (subst rnd_normal [where e = "0" and m = "5854679515581644"],
      simp_all add: round_even_def power_int_minus Let_def overflow_bound_def)

lemma step_div_8:
  "js_div (Fin (1463669878895411 / 1125899906842624)) (Fin 1) =
     Fin (1463669878895411 / 1125899906842624)"
  by (simp add: js_div_def)
    (subst rnd_normal [where e = "0" and m = "5854679515581644"],
      simp_all add: round_even_def power_int_minus Let_def overflow_bound_def)

lemma step_mul_17:
  "js_mul (Fin (1463669878895411 / 1125899906842624)) (Fin (- 1)) =
     Fin (- (1463669878895411 / 1125899906842624))"
  by (simp add: js_mul_def)
    (subst rnd_normal [where e = "0" and m = "-5854679515581644"],
      simp_all add: round_even_def power_int_minus Let_def overflow_bound_def)

lemma step_mul_18:
  "js_mul (Fin (- (1463669878895411 / 1125899906842624))) (Fin 1) =
     Fin (- (1463669878895411 / 1125899906842624))"
  by (simp add: js_mul_def)
    (subst rnd_normal [where e = "0" and m = "-5854679515581644"],
      simp_all add: round_even_def power_int_minus Let_def overflow_bound_def)

lemma literal_16:
  "rnd (6499999999999999 / 5000000000000000) =
     Fin (1463669878895411 / 1125899906842624)"
  by (subst rnd_normal [where e = "0" and m = "5854679515581644"],
      simp_all add: round_even_def power_int_minus Let_def overflow_bound_def)

lemmas example_steps =
  literal_1 literal_2 literal_3 literal_4 literal_5 literal_6 literal_7 literal_8 literal_9
  literal_10 literal_11 literal_12 literal_13 literal_14 literal_15 literal_16 step_add_1
  step_add_2 step_add_3 step_add_4 step_add_5 step_add_6 step_add_7 step_add_8 step_div_1
  step_div_2 step_div_3 step_div_4 step_div_5 step_div_6 step_div_7 step_div_8 step_mul_1
  step_mul_2 step_mul_3 step_mul_4 step_mul_5 step_mul_6 step_mul_7 step_mul_8 step_mul_9
  step_mul_10 step_mul_11 step_mul_12 step_mul_13 step_mul_14 step_mul_15 step_mul_16
  step_mul_17 step_mul_18 step_pow_1 step_pow_2 step_pow_3 step_pow_4 step_pow_5 step_pow_6
  step_sub_1 step_sub_2 step_sub_3 step_sub_4 step_sub_5

lemma example_A:
  "calculate example_parse example_pow initialFormState =
     Inr
       \<lparr>Pm = Fin 500, PaAdj = Fin 400, D = rnd (2 / 10), Dc = rnd (2 / 10),
        Q = rnd (88 / 100),
        S = rnd (404 / 1000),
        Sfinal = rnd (404 / 1000)\<rparr>"
  by (simp add: calculate_def Let_def initialFormState_def example_parse_def example_literals_def
      js_or_def js_ge_def clamp_def Math_min_def Math_max_def Number_isFinite_def example_steps
      del: js_add.simps(1) Math_pow.simps)

lemma example_float_out_of_range:
  "calculate example_parse example_pow (initialFormState\<lparr>float := ''1.5''\<rparr>) =
     Inl InvalidFloat"
  by (simp add: calculate_def Let_def initialFormState_def example_parse_def example_literals_def
      js_or_def js_ge_def clamp_def Math_min_def Math_max_def Number_isFinite_def example_steps
      del: js_add.simps(1) Math_pow.simps)

lemma example_float_unparseable:
  "calculate example_parse example_pow (initialFormState\<lparr>float := ''abc''\<rparr>) =
     Inl InvalidFloat"
  by (simp add: calculate_def Let_def initialFormState_def example_parse_def example_literals_def
      js_or_def js_ge_def clamp_def Math_min_def Math_max_def Number_isFinite_def example_steps
      del: js_add.simps(1) Math_pow.simps)

lemma example_zero_cost:
  "calculate example_parse example_pow (initialFormState\<lparr>pm := ''0''\<rparr>) =
     Inl InvalidAverageCost"
  by (simp add: calculate_def Let_def initialFormState_def example_parse_def example_literals_def
      js_or_def js_ge_def clamp_def Math_min_def Math_max_def Number_isFinite_def example_steps
      del: js_add.simps(1) Math_pow.simps)

lemma example_zero_weights:
  "calculate example_parse example_pow (initialFormState\<lparr>wp := ''0'', wf := ''0''\<rparr>) =
     Inl InvalidWeights"
  by (simp add: calculate_def Let_def initialFormState_def example_parse_def example_literals_def
      js_or_def js_ge_def clamp_def Math_min_def Math_max_def Number_isFinite_def example_steps
      del: js_add.simps(1) Math_pow.simps)

lemma example_negative_alpha:
  "calculate example_parse example_pow (initialFormState\<lparr>float := ''0.5'', alpha := ''-1''\<rparr>) =
     Inr
       \<lparr>Pm = Fin 500, PaAdj = Fin 400, D = rnd (2 / 10), Dc = rnd (2 / 10),
        Q = Fin 2,
        S = rnd (74 / 100),
        Sfinal = rnd (74 / 100)\<rparr>"
  by (simp add: calculate_def Let_def initialFormState_def example_parse_def example_literals_def
      js_or_def js_ge_def clamp_def Math_min_def Math_max_def Number_isFinite_def example_steps
      del: js_add.simps(1) Math_pow.simps)

lemma example_large_alpha:
  "calculate example_parse example_pow (initialFormState\<lparr>float := ''0.5'', alpha := ''2000''\<rparr>) =
     Inr
       \<lparr>Pm = Fin 500, PaAdj = Fin 400, D = rnd (2 / 10), Dc = rnd (2 / 10),
        Q = Fin 0,
        S = rnd (13999999999999999 / 100000000000000000),
        Sfinal = rnd (13999999999999999 / 100000000000000000)\<rparr>"
  by (simp add: calculate_def Let_def initialFormState_def example_parse_def example_literals_def
      js_or_def js_ge_def clamp_def Math_min_def Math_max_def Number_isFinite_def example_steps
      del: js_add.simps(1) Math_pow.simps)

lemma example_float_one:
  "calculate example_parse example_pow (initialFormState\<lparr>float := ''1''\<rparr>) =
     Inr
       \<lparr>Pm = Fin 500, PaAdj = Fin 400, D = rnd (2 / 10), Dc = rnd (2 / 10),
        Q = Fin 0,
        S = rnd (13999999999999999 / 100000000000000000),
        Sfinal = rnd (13999999999999999 / 100000000000000000)\<rparr>"
  by (simp add: calculate_def Let_def initialFormState_def example_parse_def example_literals_def
      js_or_def js_ge_def clamp_def Math_min_def Math_max_def Number_isFinite_def example_steps
      del: js_add.simps(1) Math_pow.simps)

lemma example_infinite_alpha:
  "calculate example_parse example_pow (initialFormState\<lparr>float := ''0'', alpha := ''Infinity''\<rparr>) =
     Inr
       \<lparr>Pm = Fin 500, PaAdj = Fin 400, D = rnd (2 / 10), Dc = rnd (2 / 10),
        Q = NaN,
        S = NaN,
        Sfinal = NaN\<rparr>"
  by (simp add: calculate_def Let_def initialFormState_def example_parse_def example_literals_def
      js_or_def js_ge_def clamp_def Math_min_def Math_max_def Number_isFinite_def example_steps
      del: js_add.simps(1) Math_pow.simps)

lemma example_alpha_three:
  "calculate example_parse example_pow (initialFormState\<lparr>alpha := ''3''\<rparr>) =
     Inr
       \<lparr>Pm = Fin 500, PaAdj = Fin 400, D = rnd (2 / 10), Dc = rnd (2 / 10),
        Q = rnd (6814720000000001 / 10000000000000000),
        S = rnd (3444416 / 10000000),
        Sfinal = rnd (3444416 / 10000000)\<rparr>"
  by (simp add: calculate_def Let_def initialFormState_def example_parse_def example_literals_def
      js_or_def js_ge_def clamp_def Math_min_def Math_max_def Number_isFinite_def example_steps
      del: js_add.simps(1) Math_pow.simps)


lemma example_liq_unparseable:
  "calculate example_parse example_pow (initialFormState\<lparr>liq := ''abc''\<rparr>) =
     Inr
       \<lparr>Pm = Fin 500, PaAdj = Fin 400, D = rnd (2 / 10), Dc = rnd (2 / 10),
        Q = rnd (88 / 100),
        S = rnd (404 / 1000),
        Sfinal = rnd (404 / 1000)\<rparr>"
  by (simp add: calculate_def Let_def initialFormState_def example_parse_def example_literals_def
      js_or_def js_ge_def clamp_def Math_min_def Math_max_def Number_isFinite_def example_steps
      del: js_add.simps(1) Math_pow.simps)

lemma example_liq_half:
  "calculate example_parse example_pow (initialFormState\<lparr>liq := ''0.5''\<rparr>) =
     Inr
       \<lparr>Pm = Fin 500, PaAdj = Fin 400, D = rnd (2 / 10), Dc = rnd (2 / 10),
        Q = rnd (88 / 100),
        S = rnd (404 / 1000),
        Sfinal = rnd (202 / 1000)\<rparr>"
  by (simp add: calculate_def Let_def initialFormState_def example_parse_def example_literals_def
      js_or_def js_ge_def clamp_def Math_min_def Math_max_def Number_isFinite_def example_steps
      del: js_add.simps(1) Math_pow.simps)

lemma example_liq_above:
  "calculate example_parse example_pow (initialFormState\<lparr>liq := ''2''\<rparr>) =
     Inr
       \<lparr>Pm = Fin 500, PaAdj = Fin 400, D = rnd (2 / 10), Dc = rnd (2 / 10),
        Q = rnd (88 / 100),
        S = rnd (404 / 1000),
        Sfinal = rnd (404 / 1000)\<rparr>"
  by (simp add: calculate_def Let_def initialFormState_def example_parse_def example_literals_def
      js_or_def js_ge_def clamp_def Math_min_def Math_max_def Number_isFinite_def example_steps
      del: js_add.simps(1) Math_pow.simps)

lemma example_liq_below:
  "calculate example_parse example_pow (initialFormState\<lparr>liq := ''-1''\<rparr>) =
     Inr
       \<lparr>Pm = Fin 500, PaAdj = Fin 400, D = rnd (2 / 10), Dc = rnd (2 / 10),
        Q = rnd (88 / 100),
        S = rnd (404 / 1000),
        Sfinal = Fin 0\<rparr>"
  by (simp add: calculate_def Let_def initialFormState_def example_parse_def example_literals_def
      js_or_def js_ge_def clamp_def Math_min_def Math_max_def Number_isFinite_def example_steps
      del: js_add.simps(1) Math_pow.simps)

lemma example_zero_defaults:
  "calculate example_parse example_pow (initialFormState\<lparr>alpha := ''0'', cap := ''0'', r := ''0''\<rparr>) =
     Inr
       \<lparr>Pm = Fin 500, PaAdj = Fin 400, D = rnd (2 / 10), Dc = rnd (2 / 10),
        Q = rnd (88 / 100),
        S = rnd (404 / 1000),
        Sfinal = rnd (404 / 1000)\<rparr>"
  by (simp add: calculate_def Let_def initialFormState_def example_parse_def example_literals_def
      js_or_def js_ge_def clamp_def Math_min_def Math_max_def Number_isFinite_def example_steps
      del: js_add.simps(1) Math_pow.simps)

lemma example_negative_used:
  "calculate example_parse example_pow (initialFormState\<lparr>float := ''0.5'', alpha := ''-1'', cap := ''-1'', r := ''-1''\<rparr>) =
     Inr
       \<lparr>Pm = Fin 500, PaAdj = Fin 400, D = rnd (2 / 10), Dc = Fin 1,
        Q = Fin 2,
        S = rnd (12999999999999998 / 10000000000000000),
        Sfinal = js_neg (rnd (12999999999999998 / 10000000000000000))\<rparr>"
  by (simp add: calculate_def Let_def initialFormState_def example_parse_def example_literals_def
      js_or_def js_ge_def clamp_def Math_min_def Math_max_def Number_isFinite_def example_steps
      del: js_add.simps(1) Math_pow.simps)

section \<open>Valid inputs give a result\<close>

text \<open>
  C1. For every input whose parsed values satisfy averageCost > 0, 0 \<le> floatValue \<le> 1
  and priceWeight + floatWeight > 0 (the values after the defaulting of the parse, the sum
  as the program computes it), \<open>calculate\<close> returns a result and no validation failure.
\<close>

theorem calculate_returns_result:
  assumes "js_gt (js_or (parseFloat (pm fs)) (Fin 0)) (Fin 0)"
    and "js_le (Fin 0) (parseFloat (float fs))"
    and "js_le (parseFloat (float fs)) (Fin 1)"
    and "js_gt (js_add (js_or (parseFloat (wp fs)) (Fin 0)) (js_or (parseFloat (wf fs)) (Fin 0)))
           (Fin 0)"
  shows "\<exists>res. calculate parseFloat host_pow fs = Inr res"
proof (cases "calculate parseFloat host_pow fs")
  case (Inl e)
  then show ?thesis
    using assms js_lt_not_le
    by (auto simp add: calculate_failure js_gt_def js_ge_def split: if_splits)
next
  case (Inr res)
  then show ?thesis
    by blast
qed

theorem calculate_returns_result_witness:
  "js_gt (js_or (example_parse (pm initialFormState)) (Fin 0)) (Fin 0) \<and>
   js_le (Fin 0) (example_parse (float initialFormState)) \<and>
   js_le (example_parse (float initialFormState)) (Fin 1) \<and>
   js_gt (js_add (js_or (example_parse (wp initialFormState)) (Fin 0))
           (js_or (example_parse (wf initialFormState)) (Fin 0))) (Fin 0) \<and>
   (\<exists>res. calculate example_parse example_pow initialFormState = Inr res)"
proof -
  have h1: "js_gt (js_or (example_parse (pm initialFormState)) (Fin 0)) (Fin 0)"
    by (simp add: initialFormState_def example_parse_def example_literals_def js_or_def js_gt_def)
  have h2: "js_le (Fin 0) (example_parse (float initialFormState))"
    by (simp add: initialFormState_def example_parse_def example_literals_def example_steps)
  have h3: "js_le (example_parse (float initialFormState)) (Fin 1)"
    by (simp add: initialFormState_def example_parse_def example_literals_def example_steps)
  have h4: "js_gt (js_add (js_or (example_parse (wp initialFormState)) (Fin 0))
      (js_or (example_parse (wf initialFormState)) (Fin 0))) (Fin 0)"
    by (simp add: initialFormState_def example_parse_def example_literals_def js_or_def js_gt_def
        example_steps del: js_add.simps(1))
  show ?thesis
    using calculate_returns_result [OF h1 h2 h3 h4] h1 h2 h3 h4 by blast
qed

section \<open>The default inputs\<close>

text \<open>
  C2. With averageCost = 500, currentPrice = 400, fee = 0, floatValue = 0.12,
  priceWeight = 0.7, floatWeight = 0.3 and alpha = cap = rarity = liquidity = 1 (the
  initial form), the calculation gives, whatever the host's approximation of the powers, in binary64 arithmetic, discount = clampedDiscount
  = 0.2, floatQuality = 0.88 and rawScore = finalScore = 0.404, each the binary64 value of
  that decimal; the final score is strictly above the threshold 0.40, and its
  interpretation is the strong-buy label, 'Compra forte'.
\<close>

theorem scenario_A:
  assumes "parseFloat ''500'' = Fin 500" and "parseFloat ''400'' = Fin 400"
    and "parseFloat ''0'' = Fin 0" and "parseFloat ''1'' = Fin 1"
    and "parseFloat ''0.12'' = rnd (12 / 100)"
    and "parseFloat ''0.7'' = rnd (7 / 10)" and "parseFloat ''0.3'' = rnd (3 / 10)"
  shows "calculate parseFloat host_pow initialFormState =
      Inr \<lparr>Pm = Fin 500, PaAdj = Fin 400, D = rnd (2 / 10), Dc = rnd (2 / 10),
           Q = rnd (88 / 100), S = rnd (404 / 1000), Sfinal = rnd (404 / 1000)\<rparr> \<and>
    js_gt (rnd (404 / 1000)) (rnd (40 / 100)) \<and>
    interpret_score (rnd (404 / 1000)) = ''Compra forte''"
  using assms
  by (simp add: calculate_def Let_def initialFormState_def js_or_def js_ge_def js_gt_def
      clamp_def Math_min_def Math_max_def Number_isFinite_def interpret_score_def example_steps
      del: js_add.simps(1) Math_pow.simps)

theorem scenario_A_witness:
  "example_parse ''500'' = Fin 500 \<and> example_parse ''400'' = Fin 400 \<and>
   example_parse ''0'' = Fin 0 \<and> example_parse ''1'' = Fin 1 \<and>
   example_parse ''0.12'' = rnd (12 / 100) \<and>
   example_parse ''0.7'' = rnd (7 / 10) \<and> example_parse ''0.3'' = rnd (3 / 10) \<and>
   calculate example_parse example_pow initialFormState =
      Inr \<lparr>Pm = Fin 500, PaAdj = Fin 400, D = rnd (2 / 10), Dc = rnd (2 / 10),
           Q = rnd (88 / 100), S = rnd (404 / 1000), Sfinal = rnd (404 / 1000)\<rparr> \<and>
   js_gt (rnd (404 / 1000)) (rnd (40 / 100)) \<and>
   interpret_score (rnd (404 / 1000)) = ''Compra forte''"
proof -
  have p: "example_parse ''500'' = Fin 500" "example_parse ''400'' = Fin 400"
    "example_parse ''0'' = Fin 0" "example_parse ''1'' = Fin 1"
    "example_parse ''0.12'' = rnd (12 / 100)"
    "example_parse ''0.7'' = rnd (7 / 10)" "example_parse ''0.3'' = rnd (3 / 10)"
    by (simp_all add: example_parse_def example_literals_def)
  show ?thesis
    using scenario_A [where parseFloat = example_parse and host_pow = example_pow, OF p] p
    by blast
qed

section \<open>The order of the validations\<close>

text \<open>
  The failures of \<open>calculate\<close>, in the order of the source: the float first, then the
  cost, then the weights, and the first test that fires decides. The third test is
  \<open>wp + wf <= 0\<close>.
\<close>

lemma validation_failures:
  "(calculate parseFloat host_pow fs = Inl InvalidFloat \<longleftrightarrow>
      \<not> (js_ge (parseFloat (float fs)) (Fin 0) \<and> js_le (parseFloat (float fs)) (Fin 1))) \<and>
   (calculate parseFloat host_pow fs = Inl InvalidAverageCost \<longleftrightarrow>
      js_ge (parseFloat (float fs)) (Fin 0) \<and> js_le (parseFloat (float fs)) (Fin 1) \<and>
      \<not> js_gt (js_or (parseFloat (pm fs)) (Fin 0)) (Fin 0)) \<and>
   (calculate parseFloat host_pow fs = Inl InvalidWeights \<longleftrightarrow>
      js_ge (parseFloat (float fs)) (Fin 0) \<and> js_le (parseFloat (float fs)) (Fin 1) \<and>
      js_gt (js_or (parseFloat (pm fs)) (Fin 0)) (Fin 0) \<and>
      js_le (js_add (js_or (parseFloat (wp fs)) (Fin 0)) (js_or (parseFloat (wf fs)) (Fin 0)))
        (Fin 0))"
proof -
  have cost: "js_le (js_or (parseFloat (pm fs)) (Fin 0)) (Fin 0) \<longleftrightarrow>
      \<not> js_gt (js_or (parseFloat (pm fs)) (Fin 0)) (Fin 0)"
    by (rule js_le_iff_not_gt) (simp add: js_or_not_NaN)
  show ?thesis
    by (auto simp add: calculate_failure cost)
qed


section \<open>The clamped discount\<close>

text \<open>
  C4. For every discount that is a number (not NaN) and every cap > 0, the clamped
  discount \<open>clamp discount (- cap) cap\<close> lies in the closed interval from \<open>- cap\<close> to
  \<open>cap\<close>; the field \<open>Dc\<close> of a result is that clamp of its field \<open>D\<close>.
\<close>

theorem clamp_within_cap:
  assumes "x \<noteq> NaN" and "js_gt c (Fin 0)"
  shows "js_le (js_neg c) (clamp x (js_neg c) c) \<and> js_le (clamp x (js_neg c) c) c \<and>
    (calculate parseFloat host_pow fs = Inr res \<longrightarrow>
       Dc res = clamp (D res) (js_neg (js_or (parseFloat (cap fs)) (Fin 1)))
         (js_or (parseFloat (cap fs)) (Fin 1)))"
proof -
  have "js_le (js_neg c) (clamp x (js_neg c) c) \<and> js_le (clamp x (js_neg c) c) c"
    using assms
    by (cases x; cases c) (auto simp add: clamp_def Math_max_def Math_min_def js_gt_def)
  then show ?thesis
    using calculate_fields(4) by blast
qed

theorem clamp_within_cap_witness:
  "Fin 5 \<noteq> NaN \<and> js_gt (Fin 1) (Fin 0) \<and>
   js_le (js_neg (Fin 1)) (clamp (Fin 5) (js_neg (Fin 1)) (Fin 1)) \<and>
   js_le (clamp (Fin 5) (js_neg (Fin 1)) (Fin 1)) (Fin 1) \<and>
   calculate example_parse example_pow initialFormState =
     Inr \<lparr>Pm = Fin 500, PaAdj = Fin 400, D = rnd (2 / 10), Dc = rnd (2 / 10),
          Q = rnd (88 / 100), S = rnd (404 / 1000), Sfinal = rnd (404 / 1000)\<rparr> \<and>
   rnd (2 / 10) = clamp (rnd (2 / 10)) (js_neg (js_or (example_parse ''1'') (Fin 1)))
     (js_or (example_parse ''1'') (Fin 1))"
proof -
  have h1: "Fin 5 \<noteq> NaN"
    by simp
  have h2: "js_gt (Fin 1) (Fin 0)"
    by (simp add: js_gt_def)
  show ?thesis
    using clamp_within_cap [OF h1 h2, where parseFloat = example_parse
        and host_pow = example_pow and fs = initialFormState
        and res = "\<lparr>Pm = Fin 500, PaAdj = Fin 400, D = rnd (2 / 10), Dc = rnd (2 / 10),
          Q = rnd (88 / 100), S = rnd (404 / 1000), Sfinal = rnd (404 / 1000)\<rparr>"]
      h1 h2 example_A
    by (simp add: initialFormState_def)
qed

section \<open>The float quality\<close>

text \<open>
  The engine's value of 0.88 to the power 3 is faithful: it is the binary64 value above
  the exact power.
\<close>

lemma example_pow_faithful:
  "faithful ((7926335344172073 / 9007199254740992) powr 3)
     (example_pow (7926335344172073 / 9007199254740992) 3)"
proof -
  define t :: real where
    "t = 497986221897582544276265793752985165658174153017 /
      730750818665451459101842416358141509827966271488"
  have t: "(7926335344172073 / 9007199254740992 :: real) powr 3 = t"
    by (simp add: t_def power_divide)
  have b: "binade t = - 1"
    by (rule binade_eq) (simp_all add: t_def power_int_minus)
  have u: "ulp t = 1 / 2 ^ 53"
    by (simp add: ulp_def b power_int_minus)
  have c: "\<lceil>t / ulp t\<rceil> = 6138154090526854"
    unfolding u by (simp add: t_def ceiling_eq_iff)
  have g: "grid_value t 6138154090526854 = Fin (3069077045263427 / 4503599627370496)"
    unfolding grid_value_def u by (simp add: overflow_bound_def)
  have v: "example_pow (7926335344172073 / 9007199254740992) 3 =
      Fin (3069077045263427 / 4503599627370496)"
    by (simp add: example_pow_def example_powers_def example_steps)
  have "t \<noteq> 0"
    by (simp add: t_def)
  then have "faithful t (example_pow (7926335344172073 / 9007199254740992) 3)"
    unfolding faithful_def v c g by simp
  then show ?thesis
    by (simp only: t)
qed

text \<open>
  C5, as stated, fails: the float quality is not within (0, 1] for every floatValue in
  [0, 1). With floatValue 0.5 it is 2 for alpha = -1, it is 0 for alpha = 2000 (the
  power underflows), and with floatValue 0 and alpha = Infinity it is NaN.
\<close>

theorem floatQuality_counterexample:
  "js_le (Fin 0) (example_parse ''0.5'') \<and> js_lt (example_parse ''0.5'') (Fin 1) \<and>
   calculate example_parse example_pow
       (initialFormState\<lparr>float := ''0.5'', alpha := ''-1''\<rparr>) =
     Inr \<lparr>Pm = Fin 500, PaAdj = Fin 400, D = rnd (2 / 10), Dc = rnd (2 / 10),
          Q = Fin 2, S = rnd (74 / 100), Sfinal = rnd (74 / 100)\<rparr> \<and>
   \<not> js_le (Fin 2) (Fin 1) \<and>
   calculate example_parse example_pow
       (initialFormState\<lparr>float := ''0.5'', alpha := ''2000''\<rparr>) =
     Inr \<lparr>Pm = Fin 500, PaAdj = Fin 400, D = rnd (2 / 10), Dc = rnd (2 / 10),
          Q = Fin 0, S = rnd (13999999999999999 / 100000000000000000),
          Sfinal = rnd (13999999999999999 / 100000000000000000)\<rparr> \<and>
   \<not> js_lt (Fin 0) (Fin 0) \<and>
   js_le (Fin 0) (example_parse ''0'') \<and> js_lt (example_parse ''0'') (Fin 1) \<and>
   calculate example_parse example_pow
       (initialFormState\<lparr>float := ''0'', alpha := ''Infinity''\<rparr>) =
     Inr \<lparr>Pm = Fin 500, PaAdj = Fin 400, D = rnd (2 / 10), Dc = rnd (2 / 10),
          Q = NaN, S = NaN, Sfinal = NaN\<rparr> \<and>
   \<not> js_le NaN (Fin 1)"
  using example_negative_alpha example_large_alpha example_infinite_alpha
  by (simp add: example_parse_def example_literals_def example_steps)

text \<open>
  C5, amended. In a result computed with alpha = 1 (the default, which also stands in
  for an alpha of 0 and for an unparseable one) the float quality is 1 - floatValue,
  rounded; it lies in [0, 1], and it is greater than 0 for every binary64 floatValue
  below 1. With any finite alpha > 0 the float quality lies in [0, 1] provided the
  engine's power is faithful, and it is then greater than 0 when the exact power
  (1 - floatValue) ^ alpha is at least 2 ^ -1074. It is exactly 0 when floatValue = 1
  and alpha > 0.
\<close>

theorem floatQuality_range:
  assumes "calculate parseFloat host_pow fs = Inr res"
  shows "(js_or (parseFloat (alpha fs)) (Fin 1) = Fin 1 \<longrightarrow>
      Q res = js_sub (Fin 1) (parseFloat (float fs)) \<and>
      js_le (Fin 0) (Q res) \<and> js_le (Q res) (Fin 1)) \<and>
    (js_or (parseFloat (alpha fs)) (Fin 1) = Fin 1 \<and> parseFloat (float fs) = Fin x \<and>
      rnd x = Fin x \<and> x < 1 \<longrightarrow>
      js_lt (Fin 0) (Q res)) \<and>
    (js_or (parseFloat (alpha fs)) (Fin 1) = Fin a \<and> 0 < a \<and>
      js_sub (Fin 1) (parseFloat (float fs)) = Fin b \<and>
      faithful (b powr a) (host_pow b a) \<longrightarrow>
      js_le (Fin 0) (Q res) \<and> js_le (Q res) (Fin 1)) \<and>
    (js_or (parseFloat (alpha fs)) (Fin 1) = Fin a \<and> 0 < a \<and>
      js_sub (Fin 1) (parseFloat (float fs)) = Fin b \<and>
      faithful (b powr a) (host_pow b a) \<and> 2 powi (- 1074) \<le> b powr a \<longrightarrow>
      js_lt (Fin 0) (Q res)) \<and>
    (parseFloat (float fs) = Fin 1 \<and> js_gt (js_or (parseFloat (alpha fs)) (Fin 1)) (Fin 0) \<longrightarrow>
      Q res = Fin 0)"
proof -
  let ?f = "parseFloat (float fs)"
  let ?alpha = "js_or (parseFloat (alpha fs)) (Fin 1)"
  have q: "Q res = Math_pow host_pow (js_sub (Fin 1) ?f) ?alpha"
    using assms by (rule calculate_fields)
  have valid: "js_ge ?f (Fin 0)" "js_le ?f (Fin 1)"
    using calculate_valid(1,2) [OF assms] by simp_all
  obtain y where y: "js_sub (Fin 1) ?f = Fin y" and y_lo: "0 \<le> y" and y_hi: "y \<le> 1"
    using one_minus_unit valid by blast
  have default: "Q res = js_sub (Fin 1) ?f \<and> js_le (Fin 0) (Q res) \<and> js_le (Q res) (Fin 1)"
    if al: "?alpha = Fin 1"
    using y_lo y_hi by (simp add: q y al)
  have default_positive: "js_lt (Fin 0) (Q res)"
    if al: "?alpha = Fin 1" and fx: "?f = Fin x" and binary64: "rnd x = Fin x"
      and below: "x < 1"
  proof -
    have x_lo: "0 \<le> x"
      using valid(1) fx by (simp add: js_ge_def)
    have "2 powi (- 1074) \<le> 1 - x"
      using binary64 x_lo below by (rule binary64_below_one)
    then have "js_lt (Fin 0) (js_sub (Fin 1) ?f)"
      using one_minus_positive x_lo fx by simp
    then show ?thesis
      using default [OF al] by simp
  qed
  have range: "js_le (Fin 0) (Q res) \<and> js_le (Q res) (Fin 1)"
    if al: "?alpha = Fin a" and pos: "0 < a" and base: "js_sub (Fin 1) ?f = Fin b"
      and host: "faithful (b powr a) (host_pow b a)"
  proof -
    have "b = y"
      using y base by simp
    then obtain p where "Math_pow host_pow (Fin y) (Fin a) = Fin p" and "0 \<le> p" and "p \<le> 1"
      using Math_pow_unit [OF y_lo y_hi pos] host by blast
    then show ?thesis
      by (simp add: q y al)
  qed
  have positive: "js_lt (Fin 0) (Q res)"
    if al: "?alpha = Fin a" and pos: "0 < a" and base: "js_sub (Fin 1) ?f = Fin b"
      and host: "faithful (b powr a) (host_pow b a)"
      and large: "2 powi (- 1074) \<le> b powr a"
  proof -
    have "b = y"
      using y base by simp
    then obtain p where "Math_pow host_pow (Fin y) (Fin a) = Fin p" and "0 < p"
      using Math_pow_positive [OF y_lo y_hi pos] host large by blast
    then show ?thesis
      by (simp add: q y al)
  qed
  have zero: "Q res = Fin 0" if one: "?f = Fin 1" and al: "js_gt ?alpha (Fin 0)"
  proof -
    have "js_sub (Fin 1) ?f = Fin 0"
      by (simp add: one js_sub_def rnd_def)
    then show ?thesis
      using al by (cases ?alpha) (auto simp add: q js_gt_def)
  qed
  show ?thesis
    using default default_positive range positive zero by blast
qed

theorem floatQuality_range_witness:
  "calculate example_parse example_pow initialFormState =
     Inr \<lparr>Pm = Fin 500, PaAdj = Fin 400, D = rnd (2 / 10), Dc = rnd (2 / 10),
          Q = rnd (88 / 100), S = rnd (404 / 1000), Sfinal = rnd (404 / 1000)\<rparr> \<and>
   js_or (example_parse (alpha initialFormState)) (Fin 1) = Fin 1 \<and>
   example_parse (float initialFormState) = Fin (1080863910568919 / 9007199254740992) \<and>
   rnd (1080863910568919 / 9007199254740992) = Fin (1080863910568919 / 9007199254740992) \<and>
   (1080863910568919 / 9007199254740992 :: real) < 1 \<and>
   rnd (88 / 100) = js_sub (Fin 1) (example_parse (float initialFormState)) \<and>
   js_le (Fin 0) (rnd (88 / 100)) \<and> js_le (rnd (88 / 100)) (Fin 1) \<and>
   js_lt (Fin 0) (rnd (88 / 100)) \<and>
   calculate example_parse example_pow (initialFormState\<lparr>alpha := ''3''\<rparr>) =
     Inr \<lparr>Pm = Fin 500, PaAdj = Fin 400, D = rnd (2 / 10), Dc = rnd (2 / 10),
          Q = rnd (6814720000000001 / 10000000000000000),
          S = rnd (3444416 / 10000000), Sfinal = rnd (3444416 / 10000000)\<rparr> \<and>
   js_or (example_parse (alpha (initialFormState\<lparr>alpha := ''3''\<rparr>))) (Fin 1) = Fin 3 \<and>
   (0 :: real) < 3 \<and>
   js_sub (Fin 1) (example_parse (float (initialFormState\<lparr>alpha := ''3''\<rparr>))) =
     Fin (7926335344172073 / 9007199254740992) \<and>
   faithful ((7926335344172073 / 9007199254740992) powr 3)
     (example_pow (7926335344172073 / 9007199254740992) 3) \<and>
   2 powi (- 1074) \<le> (7926335344172073 / 9007199254740992 :: real) powr 3 \<and>
   js_le (Fin 0) (rnd (6814720000000001 / 10000000000000000)) \<and>
   js_le (rnd (6814720000000001 / 10000000000000000)) (Fin 1) \<and>
   js_lt (Fin 0) (rnd (6814720000000001 / 10000000000000000)) \<and>
   calculate example_parse example_pow (initialFormState\<lparr>float := ''1''\<rparr>) =
     Inr \<lparr>Pm = Fin 500, PaAdj = Fin 400, D = rnd (2 / 10), Dc = rnd (2 / 10),
          Q = Fin 0, S = rnd (13999999999999999 / 100000000000000000),
          Sfinal = rnd (13999999999999999 / 100000000000000000)\<rparr> \<and>
   example_parse (float (initialFormState\<lparr>float := ''1''\<rparr>)) = Fin 1 \<and>
   js_gt (js_or (example_parse (alpha (initialFormState\<lparr>float := ''1''\<rparr>))) (Fin 1)) (Fin 0)"
proof -
  let ?A = "\<lparr>Pm = Fin 500, PaAdj = Fin 400, D = rnd (2 / 10), Dc = rnd (2 / 10),
    Q = rnd (88 / 100), S = rnd (404 / 1000), Sfinal = rnd (404 / 1000)\<rparr>"
  let ?three = "\<lparr>Pm = Fin 500, PaAdj = Fin 400, D = rnd (2 / 10), Dc = rnd (2 / 10),
    Q = rnd (6814720000000001 / 10000000000000000),
    S = rnd (3444416 / 10000000), Sfinal = rnd (3444416 / 10000000)\<rparr>"
  let ?one = "\<lparr>Pm = Fin 500, PaAdj = Fin 400, D = rnd (2 / 10), Dc = rnd (2 / 10),
    Q = Fin 0, S = rnd (13999999999999999 / 100000000000000000),
    Sfinal = rnd (13999999999999999 / 100000000000000000)\<rparr>"
  have h1: "js_or (example_parse (alpha initialFormState)) (Fin 1) = Fin 1"
    by (simp add: initialFormState_def example_parse_def example_literals_def js_or_def)
  have h2: "example_parse (float initialFormState) =
      Fin (1080863910568919 / 9007199254740992)"
    by (simp add: initialFormState_def example_parse_def example_literals_def example_steps)
  have small: "(2::real) powi (- 1074) \<le> 2 powi (- 2)"
    by (rule power_int_increasing) simp_all
  have h3: "rnd (1080863910568919 / 9007199254740992) =
      Fin (1080863910568919 / 9007199254740992)"
    by (subst rnd_normal [where e = "- 4" and m = 8646911284551352])
      (simp_all add: round_even_def power_int_minus Let_def overflow_bound_def)
  have h4: "js_or (example_parse (alpha (initialFormState\<lparr>alpha := ''3''\<rparr>))) (Fin 1) = Fin 3"
    by (simp add: example_parse_def example_literals_def js_or_def)
  have h5: "js_sub (Fin 1) (example_parse (float (initialFormState\<lparr>alpha := ''3''\<rparr>))) =
      Fin (7926335344172073 / 9007199254740992)"
    by (simp add: initialFormState_def example_parse_def example_literals_def example_steps)
  have "(2::real) powi (- 2) \<le> (7926335344172073 / 9007199254740992) powr 3"
    by (simp add: power_int_minus power_divide)
  then have h6: "2 powi (- 1074) \<le> (7926335344172073 / 9007199254740992 :: real) powr 3"
    using small by linarith
  have h7: "example_parse (float (initialFormState\<lparr>float := ''1''\<rparr>)) = Fin 1"
    by (simp add: example_parse_def example_literals_def)
  have h8: "js_gt (js_or (example_parse (alpha (initialFormState\<lparr>float := ''1''\<rparr>))) (Fin 1))
      (Fin 0)"
    by (simp add: initialFormState_def example_parse_def example_literals_def js_or_def js_gt_def)
  have default: "rnd (88 / 100) = js_sub (Fin 1) (example_parse (float initialFormState)) \<and>
      js_le (Fin 0) (rnd (88 / 100)) \<and> js_le (rnd (88 / 100)) (Fin 1) \<and>
      js_lt (Fin 0) (rnd (88 / 100))"
    using floatQuality_range [OF example_A,
        where x = "1080863910568919 / 9007199254740992"] h1 h2 h3
    by (simp add: example_steps)
  have three: "js_le (Fin 0) (rnd (6814720000000001 / 10000000000000000)) \<and>
      js_le (rnd (6814720000000001 / 10000000000000000)) (Fin 1) \<and>
      js_lt (Fin 0) (rnd (6814720000000001 / 10000000000000000))"
    using floatQuality_range [OF example_alpha_three, where a = 3
        and b = "7926335344172073 / 9007199254740992"] h4 h5 h6 example_pow_faithful
    by (simp add: example_steps)
  have "Fin 0 = (Fin 0 :: jsnum)"
    using floatQuality_range [OF example_float_one] h7 h8 by simp
  then show ?thesis
    using default three example_A example_alpha_three example_float_one
      h1 h2 h3 h4 h5 h6 h7 h8 example_pow_faithful
    by simp
qed

section \<open>The interpretation of a score\<close>

text \<open>
  C6. \<open>interpret_score\<close> gives one of four labels on every input, and on the numbers
  (every value but NaN) the four labels split the line into four ranges that do not overlap: above 0.40
  'Compra forte' (strong buy), above 0.15 and at most 0.40 'Considerar' (consider), from
  -0.15 to 0.15 'Neutro' (neutral), below -0.15 'Evitar' (avoid); the thresholds are the
  binary64 values of the constants. 0.40 and 0.15 themselves belong to the tier below,
  -0.15 belongs to 'Neutro'.
\<close>

theorem interpret_partition:
  "interpret_score s \<in> {''Compra forte'', ''Considerar'', ''Neutro'', ''Evitar''} \<and>
   (s \<noteq> NaN \<longrightarrow>
     (interpret_score s = ''Compra forte'' \<longleftrightarrow> js_gt s (rnd (40 / 100))) \<and>
     (interpret_score s = ''Considerar'' \<longleftrightarrow>
        js_gt s (rnd (15 / 100)) \<and> js_le s (rnd (40 / 100))) \<and>
     (interpret_score s = ''Neutro'' \<longleftrightarrow>
        js_ge s (js_neg (rnd (15 / 100))) \<and> js_le s (rnd (15 / 100))) \<and>
     (interpret_score s = ''Evitar'' \<longleftrightarrow> js_lt s (js_neg (rnd (15 / 100))))) \<and>
   interpret_score (rnd (40 / 100)) = ''Considerar'' \<and>
   interpret_score (rnd (15 / 100)) = ''Neutro'' \<and>
   interpret_score (js_neg (rnd (15 / 100))) = ''Neutro''"
proof -
  have labels: "interpret_score s \<in> {''Compra forte'', ''Considerar'', ''Neutro'', ''Evitar''}"
    by (simp add: interpret_score_def)
  have ranges:
    "(interpret_score s = ''Compra forte'' \<longleftrightarrow> js_gt s (rnd (40 / 100))) \<and>
     (interpret_score s = ''Considerar'' \<longleftrightarrow>
        js_gt s (rnd (15 / 100)) \<and> js_le s (rnd (40 / 100))) \<and>
     (interpret_score s = ''Neutro'' \<longleftrightarrow>
        js_ge s (js_neg (rnd (15 / 100))) \<and> js_le s (rnd (15 / 100))) \<and>
     (interpret_score s = ''Evitar'' \<longleftrightarrow> js_lt s (js_neg (rnd (15 / 100))))"
    if "s \<noteq> NaN"
    using that
    by (cases s) (auto simp add: interpret_score_def js_gt_def js_ge_def example_steps)
  have bounds: "interpret_score (rnd (40 / 100)) = ''Considerar''"
    "interpret_score (rnd (15 / 100)) = ''Neutro''"
    "interpret_score (js_neg (rnd (15 / 100))) = ''Neutro''"
    by (simp_all add: interpret_score_def js_gt_def js_ge_def example_steps)
  show ?thesis
    using labels ranges bounds by blast
qed

theorem interpret_partition_witness:
  "rnd (404 / 1000) \<noteq> NaN \<and> js_gt (rnd (404 / 1000)) (rnd (40 / 100)) \<and>
   interpret_score (rnd (404 / 1000)) = ''Compra forte'' \<and>
   Fin 0 \<noteq> NaN \<and> js_ge (Fin 0) (js_neg (rnd (15 / 100))) \<and> js_le (Fin 0) (rnd (15 / 100)) \<and>
   interpret_score (Fin 0) = ''Neutro''"
proof -
  have h1: "rnd (404 / 1000) \<noteq> NaN"
    by (simp add: example_steps)
  have h2: "Fin 0 \<noteq> NaN"
    by simp
  have c1: "js_gt (rnd (404 / 1000)) (rnd (40 / 100))"
    by (simp add: js_gt_def example_steps)
  have c2: "js_ge (Fin 0) (js_neg (rnd (15 / 100))) \<and> js_le (Fin 0) (rnd (15 / 100))"
    by (simp add: js_ge_def example_steps)
  show ?thesis
    using interpret_partition [of "rnd (404 / 1000)"] interpret_partition [of "Fin 0"]
      h1 h2 c1 c2
    by blast
qed

section \<open>The liquidity factor\<close>

text \<open>
  C7. In a result, the final score is rawScore \<times> rarity \<times> liquidityFactor. The factor is
  1 when the liquidity input parses to NaN or to an infinity, and when it parses to a
  finite value \<open>l\<close> it is \<open>l\<close> clamped to the interval from 0 to 1, that is
  \<open>max 0 (min 1 l)\<close>: 0 below 0, 1 above 1 and \<open>l\<close> in between. No value of the liquidity
  input changes whether, or with which failure, the validation fails.
\<close>

theorem liquidity_factor:
  "(calculate parseFloat host_pow fs = Inr res \<and>
      (parseFloat (liq fs) = NaN \<or> parseFloat (liq fs) = PInf \<or> parseFloat (liq fs) = NInf) \<longrightarrow>
      Sfinal res = js_mul (js_mul (S res) (js_or (parseFloat (r fs)) (Fin 1))) (Fin 1)) \<and>
   (calculate parseFloat host_pow fs = Inr res \<and> parseFloat (liq fs) = Fin l \<longrightarrow>
      Sfinal res =
        js_mul (js_mul (S res) (js_or (parseFloat (r fs)) (Fin 1))) (Fin (max 0 (min 1 l)))) \<and>
   (calculate parseFloat host_pow fs = Inr res \<and> parseFloat (liq fs) = Fin l \<and> l < 0 \<longrightarrow>
      Sfinal res = js_mul (js_mul (S res) (js_or (parseFloat (r fs)) (Fin 1))) (Fin 0)) \<and>
   (calculate parseFloat host_pow fs = Inr res \<and> parseFloat (liq fs) = Fin l \<and> 1 < l \<longrightarrow>
      Sfinal res = js_mul (js_mul (S res) (js_or (parseFloat (r fs)) (Fin 1))) (Fin 1)) \<and>
   (calculate parseFloat host_pow fs = Inr res \<and> parseFloat (liq fs) = Fin l \<and>
      0 \<le> l \<and> l \<le> 1 \<longrightarrow>
      Sfinal res = js_mul (js_mul (S res) (js_or (parseFloat (r fs)) (Fin 1))) (Fin l)) \<and>
   clamp (Fin l) (Fin 0) (Fin 1) = Fin (max 0 (min 1 l)) \<and>
   js_le (Fin 0) (clamp (Fin l) (Fin 0) (Fin 1)) \<and> js_le (clamp (Fin l) (Fin 0) (Fin 1)) (Fin 1) \<and>
   (calculate parseFloat host_pow (fs\<lparr>liq := v\<rparr>) = Inl e \<longleftrightarrow>
      calculate parseFloat host_pow fs = Inl e)"
proof -
  have clamped: "clamp (Fin l) (Fin 0) (Fin 1) = Fin (max 0 (min 1 l))"
    by (simp add: clamp_def Math_max_def Math_min_def max_def min_def)
  have below: "max 0 (min 1 l) = 0" if "l < 0"
    using that by simp
  have above: "max 0 (min 1 l) = 1" if "1 < l"
    using that by simp
  have inside: "max 0 (min 1 l) = l" if "0 \<le> l" and "l \<le> 1"
    using that by simp
  have finite: "Sfinal res =
      js_mul (js_mul (S res) (js_or (parseFloat (r fs)) (Fin 1))) (Fin (max 0 (min 1 l)))"
    if "calculate parseFloat host_pow fs = Inr res" and "parseFloat (liq fs) = Fin l"
    using calculate_fields(7) [OF that(1)] that(2) clamped
    by (simp add: Number_isFinite_def)
  have other: "Sfinal res = js_mul (js_mul (S res) (js_or (parseFloat (r fs)) (Fin 1))) (Fin 1)"
    if "calculate parseFloat host_pow fs = Inr res"
      and "parseFloat (liq fs) = NaN \<or> parseFloat (liq fs) = PInf \<or> parseFloat (liq fs) = NInf"
    using calculate_fields(7) [OF that(1)] that(2)
    by (auto simp add: Number_isFinite_def)
  have range: "js_le (Fin 0) (clamp (Fin l) (Fin 0) (Fin 1))"
    "js_le (clamp (Fin l) (Fin 0) (Fin 1)) (Fin 1)"
    by (simp_all add: clamped)
  have failure: "calculate parseFloat host_pow (fs\<lparr>liq := v\<rparr>) = Inl e \<longleftrightarrow>
      calculate parseFloat host_pow fs = Inl e"
    by (simp add: calculate_failure)
  show ?thesis
    using finite other below above inside clamped range failure by metis
qed

theorem liquidity_factor_witness:
  "calculate example_parse example_pow (initialFormState\<lparr>liq := ''abc''\<rparr>) =
     Inr \<lparr>Pm = Fin 500, PaAdj = Fin 400, D = rnd (2 / 10), Dc = rnd (2 / 10),
          Q = rnd (88 / 100), S = rnd (404 / 1000), Sfinal = rnd (404 / 1000)\<rparr> \<and>
   example_parse ''abc'' = NaN \<and>
   rnd (404 / 1000) = js_mul (js_mul (rnd (404 / 1000)) (Fin 1)) (Fin 1) \<and>
   calculate example_parse example_pow (initialFormState\<lparr>liq := ''-1''\<rparr>) =
     Inr \<lparr>Pm = Fin 500, PaAdj = Fin 400, D = rnd (2 / 10), Dc = rnd (2 / 10),
          Q = rnd (88 / 100), S = rnd (404 / 1000), Sfinal = Fin 0\<rparr> \<and>
   example_parse ''-1'' = Fin (- 1) \<and> (- 1 :: real) < 0 \<and>
   Fin 0 = js_mul (js_mul (rnd (404 / 1000)) (Fin 1)) (Fin 0) \<and>
   calculate example_parse example_pow (initialFormState\<lparr>liq := ''2''\<rparr>) =
     Inr \<lparr>Pm = Fin 500, PaAdj = Fin 400, D = rnd (2 / 10), Dc = rnd (2 / 10),
          Q = rnd (88 / 100), S = rnd (404 / 1000), Sfinal = rnd (404 / 1000)\<rparr> \<and>
   example_parse ''2'' = Fin 2 \<and> (1 :: real) < 2 \<and>
   clamp (Fin 2) (Fin 0) (Fin 1) = Fin 1 \<and>
   calculate example_parse example_pow (initialFormState\<lparr>liq := ''0.5''\<rparr>) =
     Inr \<lparr>Pm = Fin 500, PaAdj = Fin 400, D = rnd (2 / 10), Dc = rnd (2 / 10),
          Q = rnd (88 / 100), S = rnd (404 / 1000), Sfinal = rnd (202 / 1000)\<rparr> \<and>
   example_parse ''0.5'' = Fin (1 / 2) \<and> (0 :: real) \<le> 1 / 2 \<and> (1 / 2 :: real) \<le> 1 \<and>
   rnd (202 / 1000) = js_mul (js_mul (rnd (404 / 1000)) (Fin 1)) (Fin (1 / 2))"
proof -
  let ?full = "\<lparr>Pm = Fin 500, PaAdj = Fin 400, D = rnd (2 / 10), Dc = rnd (2 / 10),
    Q = rnd (88 / 100), S = rnd (404 / 1000), Sfinal = rnd (404 / 1000)\<rparr>"
  let ?half = "\<lparr>Pm = Fin 500, PaAdj = Fin 400, D = rnd (2 / 10), Dc = rnd (2 / 10),
    Q = rnd (88 / 100), S = rnd (404 / 1000), Sfinal = rnd (202 / 1000)\<rparr>"
  let ?none = "\<lparr>Pm = Fin 500, PaAdj = Fin 400, D = rnd (2 / 10), Dc = rnd (2 / 10),
    Q = rnd (88 / 100), S = rnd (404 / 1000), Sfinal = Fin 0\<rparr>"
  have p: "example_parse ''abc'' = NaN" "example_parse ''-1'' = Fin (- 1)"
    "example_parse ''2'' = Fin 2" "example_parse ''0.5'' = Fin (1 / 2)"
    "example_parse ''1'' = Fin 1"
    by (simp_all add: example_parse_def example_literals_def example_steps)
  have unparseable: "rnd (404 / 1000) = js_mul (js_mul (rnd (404 / 1000)) (Fin 1)) (Fin 1)"
    using liquidity_factor [where parseFloat = example_parse and host_pow = example_pow
        and fs = "initialFormState\<lparr>liq := ''abc''\<rparr>" and res = ?full]
      example_liq_unparseable p
    by (simp add: initialFormState_def js_or_def)
  have below: "Fin 0 = js_mul (js_mul (rnd (404 / 1000)) (Fin 1)) (Fin 0)"
    using liquidity_factor [where parseFloat = example_parse and host_pow = example_pow
        and fs = "initialFormState\<lparr>liq := ''-1''\<rparr>" and res = ?none and l = "- 1"]
      example_liq_below p
    by (simp add: initialFormState_def js_or_def)
  have above: "clamp (Fin 2) (Fin 0) (Fin 1) = Fin 1"
    using liquidity_factor [where parseFloat = example_parse and host_pow = example_pow
        and fs = "initialFormState\<lparr>liq := ''2''\<rparr>" and res = ?full and l = 2]
    by simp
  have inside: "rnd (202 / 1000) = js_mul (js_mul (rnd (404 / 1000)) (Fin 1)) (Fin (1 / 2))"
    using liquidity_factor [where parseFloat = example_parse and host_pow = example_pow
        and fs = "initialFormState\<lparr>liq := ''0.5''\<rparr>" and res = ?half and l = "1 / 2"]
      example_liq_half p
    by (simp add: initialFormState_def js_or_def)
  show ?thesis
    using unparseable below above inside p example_liq_unparseable example_liq_below
      example_liq_above example_liq_half
    by simp
qed

section \<open>The history\<close>

text \<open>
  C8. A commit whose calculation succeeds builds a new history item from the result, the
  identifier, the name of the form and the float input as it was typed, and puts it in
  front of the history; an empty name is replaced by the dash U+2014, the three bytes E2
  80 94 in UTF-8. After a sequence of commits the newest item is first and the older
  items follow unchanged in their order. Reset makes the history empty. Calculating and
  editing the form leave the history as it is, and as long as no Reset occurs the history
  at the start stays a suffix of the history.
\<close>

theorem history_prepend_and_reset:
  "(calculate parseFloat host_pow (formState st) = Inr res \<longrightarrow>
      history (handleAddHistory parseFloat host_pow new_id st) =
        \<lparr>Pm = Pm res, PaAdj = PaAdj res, D = D res, Dc = Dc res, Q = Q res, S = S res,
         Sfinal = Sfinal res, item_id = new_id,
         item_name =
           (if name (formState st) = [] then [CHR 0xE2, CHR 0x80, CHR 0x94]
            else name (formState st)),
         floatValue = float (formState st)\<rparr> # history st) \<and>
   (calculate parseFloat host_pow (formState st) = Inr res \<longrightarrow>
      history (run parseFloat host_pow st (map AddHistory ids)) =
        rev (map (\<lambda>i.
          \<lparr>Pm = Pm res, PaAdj = PaAdj res, D = D res, Dc = Dc res, Q = Q res, S = S res,
           Sfinal = Sfinal res, item_id = i,
           item_name =
             (if name (formState st) = [] then [CHR 0xE2, CHR 0x80, CHR 0x94]
              else name (formState st)),
           floatValue = float (formState st)\<rparr>) ids) @ history st) \<and>
   history (handleReset st) = [] \<and>
   history (handleCalculate parseFloat host_pow st) = history st \<and>
   history (handleInputChange k v st) = history st \<and>
   (Reset \<notin> set acts \<longrightarrow> suffix (history st) (history (run parseFloat host_pow st acts)))"
proof -
  have "history (handleCalculate parseFloat host_pow st) = history st"
    by (simp add: handleCalculate_def split: sum.splits)
  moreover have "history (handleInputChange k v st) = history st"
    by (simp add: handleInputChange_def)
  moreover have "history (handleReset st) = []"
    by (simp add: handleReset_def)
  ultimately show ?thesis
    using run_commits [where parseFloat = parseFloat and host_pow = host_pow and st = st
        and res = res and ids = ids]
      history_suffix_run [where acts = acts and st = st and parseFloat = parseFloat
        and host_pow = host_pow]
    by (simp add: handleAddHistory_def newItem_def em_dash_def)
qed

theorem history_prepend_and_reset_witness:
  "calculate example_parse example_pow (formState initialAppState) =
     Inr \<lparr>Pm = Fin 500, PaAdj = Fin 400, D = rnd (2 / 10), Dc = rnd (2 / 10),
          Q = rnd (88 / 100), S = rnd (404 / 1000), Sfinal = rnd (404 / 1000)\<rparr> \<and>
   name (formState initialAppState) = [] \<and>
   history (handleAddHistory example_parse example_pow ''id1'' initialAppState) =
     [\<lparr>Pm = Fin 500, PaAdj = Fin 400, D = rnd (2 / 10), Dc = rnd (2 / 10),
       Q = rnd (88 / 100), S = rnd (404 / 1000), Sfinal = rnd (404 / 1000),
       item_id = ''id1'', item_name = [CHR 0xE2, CHR 0x80, CHR 0x94],
       floatValue = ''0.12''\<rparr>] \<and>
   history (run example_parse example_pow initialAppState
       [AddHistory ''id1'', AddHistory ''id2'']) =
     [\<lparr>Pm = Fin 500, PaAdj = Fin 400, D = rnd (2 / 10), Dc = rnd (2 / 10),
       Q = rnd (88 / 100), S = rnd (404 / 1000), Sfinal = rnd (404 / 1000),
       item_id = ''id2'', item_name = [CHR 0xE2, CHR 0x80, CHR 0x94],
       floatValue = ''0.12''\<rparr>,
      \<lparr>Pm = Fin 500, PaAdj = Fin 400, D = rnd (2 / 10), Dc = rnd (2 / 10),
       Q = rnd (88 / 100), S = rnd (404 / 1000), Sfinal = rnd (404 / 1000),
       item_id = ''id1'', item_name = [CHR 0xE2, CHR 0x80, CHR 0x94],
       floatValue = ''0.12''\<rparr>] \<and>
   calculate example_parse example_pow
       (formState (handleInputChange ''name'' ''AK-47'' initialAppState)) =
     Inr \<lparr>Pm = Fin 500, PaAdj = Fin 400, D = rnd (2 / 10), Dc = rnd (2 / 10),
          Q = rnd (88 / 100), S = rnd (404 / 1000), Sfinal = rnd (404 / 1000)\<rparr> \<and>
   history (handleAddHistory example_parse example_pow ''id3''
       (handleInputChange ''name'' ''AK-47'' initialAppState)) =
     [\<lparr>Pm = Fin 500, PaAdj = Fin 400, D = rnd (2 / 10), Dc = rnd (2 / 10),
       Q = rnd (88 / 100), S = rnd (404 / 1000), Sfinal = rnd (404 / 1000),
       item_id = ''id3'', item_name = ''AK-47'', floatValue = ''0.12''\<rparr>] \<and>
   history (handleReset
     (run example_parse example_pow initialAppState
       [AddHistory ''id1'', AddHistory ''id2''])) = [] \<and>
   Reset \<notin> set [InputChange ''name'' ''AK-47'', Calculate, AddHistory ''id1''] \<and>
   suffix (history initialAppState)
     (history (run example_parse example_pow initialAppState
       [InputChange ''name'' ''AK-47'', Calculate, AddHistory ''id1'']))"
proof -
  let ?A = "\<lparr>Pm = Fin 500, PaAdj = Fin 400, D = rnd (2 / 10), Dc = rnd (2 / 10),
    Q = rnd (88 / 100), S = rnd (404 / 1000), Sfinal = rnd (404 / 1000)\<rparr>"
  let ?acts = "[InputChange ''name'' ''AK-47'', Calculate, AddHistory ''id1'']"
  let ?named = "handleInputChange ''name'' ''AK-47'' initialAppState"
  have h1: "calculate example_parse example_pow (formState initialAppState) = Inr ?A"
    using example_A by (simp add: initialAppState_def)
  have h2: "Reset \<notin> set ?acts"
    by simp
  have same: "calculate example_parse example_pow (formState ?named) =
      calculate example_parse example_pow initialFormState"
    by (simp add: calculate_def handleInputChange_def set_field_def initialAppState_def
        initialFormState_def)
  then have h3: "calculate example_parse example_pow (formState ?named) = Inr ?A"
    using example_A by simp
  have reset: "history (handleReset
      (run example_parse example_pow initialAppState
        [AddHistory ''id1'', AddHistory ''id2''])) = []"
    using history_prepend_and_reset
      [where st = "run example_parse example_pow initialAppState
        [AddHistory ''id1'', AddHistory ''id2'']"]
    by simp
  have named: "history (handleAddHistory example_parse example_pow ''id3'' ?named) =
      [\<lparr>Pm = Fin 500, PaAdj = Fin 400, D = rnd (2 / 10), Dc = rnd (2 / 10),
        Q = rnd (88 / 100), S = rnd (404 / 1000), Sfinal = rnd (404 / 1000),
        item_id = ''id3'', item_name = ''AK-47'', floatValue = ''0.12''\<rparr>]"
    using history_prepend_and_reset
      [where parseFloat = example_parse and host_pow = example_pow and st = ?named
        and res = ?A and new_id = "''id3''"] h3
    by (simp add: handleInputChange_def set_field_def initialAppState_def initialFormState_def)
  show ?thesis
    using history_prepend_and_reset
      [where parseFloat = example_parse and host_pow = example_pow and st = initialAppState
        and res = ?A and new_id = "''id1''" and ids = "[''id1'', ''id2'']" and acts = ?acts]
      h1 h2 h3 reset named
    by (simp add: initialAppState_def initialFormState_def)
qed

section \<open>The defaults of alpha, cap and rarity\<close>

text \<open>
  C9. For each of the fields alpha, cap and rarity, an input that parses to 0 is replaced
  by 1, as an input that parses to NaN is, and a negative parsed value is used as it is:
  the result is computed with that value. None of the three fields takes part in the
  validation.
\<close>

theorem zero_defaults_negative_used:
  "(calculate parseFloat host_pow fs = Inr res \<and>
      (parseFloat (alpha fs) = Fin 0 \<or> parseFloat (alpha fs) = NaN) \<longrightarrow>
      Q res = Math_pow host_pow (js_sub (Fin 1) (parseFloat (float fs))) (Fin 1)) \<and>
   (calculate parseFloat host_pow fs = Inr res \<and> parseFloat (alpha fs) = Fin a \<and> a < 0 \<longrightarrow>
      Q res = Math_pow host_pow (js_sub (Fin 1) (parseFloat (float fs))) (Fin a)) \<and>
   (calculate parseFloat host_pow fs = Inr res \<and>
      (parseFloat (cap fs) = Fin 0 \<or> parseFloat (cap fs) = NaN) \<longrightarrow>
      Dc res = clamp (D res) (Fin (- 1)) (Fin 1)) \<and>
   (calculate parseFloat host_pow fs = Inr res \<and> parseFloat (cap fs) = Fin c \<and> c < 0 \<longrightarrow>
      Dc res = clamp (D res) (Fin (- c)) (Fin c)) \<and>
   (calculate parseFloat host_pow fs = Inr res \<and>
      (parseFloat (r fs) = Fin 0 \<or> parseFloat (r fs) = NaN) \<longrightarrow>
      Sfinal res = js_mul (js_mul (S res) (Fin 1))
        (if Number_isFinite (parseFloat (liq fs)) then clamp (parseFloat (liq fs)) (Fin 0) (Fin 1)
         else Fin 1)) \<and>
   (calculate parseFloat host_pow fs = Inr res \<and> parseFloat (r fs) = Fin m \<and> m < 0 \<longrightarrow>
      Sfinal res = js_mul (js_mul (S res) (Fin m))
        (if Number_isFinite (parseFloat (liq fs)) then clamp (parseFloat (liq fs)) (Fin 0) (Fin 1)
         else Fin 1)) \<and>
   (calculate parseFloat host_pow (fs\<lparr>alpha := x, cap := y, r := z\<rparr>) = Inl e \<longleftrightarrow>
      calculate parseFloat host_pow fs = Inl e)"
proof -
  have zero: "js_or (Fin 0) (Fin 1) = Fin 1" "js_or NaN (Fin 1) = Fin 1"
    by (simp_all add: js_or_def)
  have neg: "js_or (Fin t) (Fin 1) = Fin t" if "t < 0" for t
    using that by (simp add: js_or_def)
  show ?thesis
    by (auto simp add: calculate_fields(4,5,7) calculate_failure zero neg)
qed

theorem zero_defaults_negative_used_witness:
  "calculate example_parse example_pow (initialFormState\<lparr>alpha := ''0'', cap := ''0'', r := ''0''\<rparr>) =
     Inr \<lparr>Pm = Fin 500, PaAdj = Fin 400, D = rnd (2 / 10), Dc = rnd (2 / 10),
          Q = rnd (88 / 100), S = rnd (404 / 1000), Sfinal = rnd (404 / 1000)\<rparr> \<and>
   example_parse ''0'' = Fin 0 \<and>
   rnd (88 / 100) = Math_pow example_pow (js_sub (Fin 1) (example_parse ''0.12'')) (Fin 1) \<and>
   rnd (2 / 10) = clamp (rnd (2 / 10)) (Fin (- 1)) (Fin 1) \<and>
   rnd (404 / 1000) = js_mul (js_mul (rnd (404 / 1000)) (Fin 1)) (Fin 1) \<and>
   calculate example_parse example_pow
       (initialFormState\<lparr>float := ''0.5'', alpha := ''-1'', cap := ''-1'', r := ''-1''\<rparr>) =
     Inr \<lparr>Pm = Fin 500, PaAdj = Fin 400, D = rnd (2 / 10), Dc = Fin 1,
          Q = Fin 2, S = rnd (12999999999999998 / 10000000000000000),
          Sfinal = js_neg (rnd (12999999999999998 / 10000000000000000))\<rparr> \<and>
   example_parse ''-1'' = Fin (- 1) \<and> (- 1 :: real) < 0 \<and>
   Fin 2 = Math_pow example_pow (js_sub (Fin 1) (example_parse ''0.5'')) (Fin (- 1)) \<and>
   Fin 1 = clamp (rnd (2 / 10)) (Fin (- (- 1))) (Fin (- 1)) \<and>
   js_neg (rnd (12999999999999998 / 10000000000000000)) =
     js_mul (js_mul (rnd (12999999999999998 / 10000000000000000)) (Fin (- 1))) (Fin 1)"
proof -
  let ?zero = "\<lparr>Pm = Fin 500, PaAdj = Fin 400, D = rnd (2 / 10), Dc = rnd (2 / 10),
    Q = rnd (88 / 100), S = rnd (404 / 1000), Sfinal = rnd (404 / 1000)\<rparr>"
  let ?neg = "\<lparr>Pm = Fin 500, PaAdj = Fin 400, D = rnd (2 / 10), Dc = Fin 1,
    Q = Fin 2, S = rnd (12999999999999998 / 10000000000000000),
    Sfinal = js_neg (rnd (12999999999999998 / 10000000000000000))\<rparr>"
  have p: "example_parse ''0'' = Fin 0" "example_parse ''-1'' = Fin (- 1)"
    "example_parse ''1'' = Fin 1" "Number_isFinite (Fin 1)"
    "clamp (Fin 1) (Fin 0) (Fin 1) = Fin 1"
    by (simp_all add: example_parse_def example_literals_def Number_isFinite_def clamp_def
        Math_min_def Math_max_def)
  show ?thesis
    using zero_defaults_negative_used [where parseFloat = example_parse and host_pow = example_pow
        and fs = "initialFormState\<lparr>alpha := ''0'', cap := ''0'', r := ''0''\<rparr>" and res = ?zero]
      zero_defaults_negative_used [where parseFloat = example_parse and host_pow = example_pow
        and fs = "initialFormState\<lparr>float := ''0.5'', alpha := ''-1'', cap := ''-1'', r := ''-1''\<rparr>"
        and res = ?neg and a = "- 1" and c = "- 1" and m = "- 1"]
      example_zero_defaults example_negative_used p
    by (simp add: initialFormState_def del: Math_pow.simps)
qed

section \<open>A failed validation changes nothing\<close>

text \<open>
  C10. When the validation fails, the Compute action and the Commit action both leave
  the state, and so the displayed result and the history, exactly as it was.
\<close>

theorem failure_leaves_state:
  assumes "calculate parseFloat host_pow (formState st) = Inl e"
  shows "handleCalculate parseFloat host_pow st = st \<and> handleAddHistory parseFloat host_pow new_id st = st \<and>
    result (handleCalculate parseFloat host_pow st) = result st \<and>
    history (handleCalculate parseFloat host_pow st) = history st \<and>
    result (handleAddHistory parseFloat host_pow new_id st) = result st \<and>
    history (handleAddHistory parseFloat host_pow new_id st) = history st"
  using assms by (simp add: handleCalculate_def handleAddHistory_def)

theorem failure_leaves_state_witness:
  "calculate example_parse example_pow
     (formState (initialAppState\<lparr>formState := initialFormState\<lparr>float := ''1.5''\<rparr>\<rparr>)) =
     Inl InvalidFloat \<and>
   handleCalculate example_parse example_pow
     (initialAppState\<lparr>formState := initialFormState\<lparr>float := ''1.5''\<rparr>\<rparr>) =
     initialAppState\<lparr>formState := initialFormState\<lparr>float := ''1.5''\<rparr>\<rparr> \<and>
   handleAddHistory example_parse example_pow ''id1''
     (initialAppState\<lparr>formState := initialFormState\<lparr>float := ''1.5''\<rparr>\<rparr>) =
     initialAppState\<lparr>formState := initialFormState\<lparr>float := ''1.5''\<rparr>\<rparr>"
proof -
  let ?st = "initialAppState\<lparr>formState := initialFormState\<lparr>float := ''1.5''\<rparr>\<rparr>"
  have h: "calculate example_parse example_pow (formState ?st) = Inl InvalidFloat"
    using example_float_out_of_range by simp
  show ?thesis
    using failure_leaves_state [OF h, where new_id = "''id1''"] h by simp
qed


end
